theory Spec2Isabelle
  imports Main "HOL-Library.Word"
begin

section \<open>Bytes, errors and the canonical codec\<close>

text \<open>
  Byte strings (\<open>[]byte\<close>, \<open>[N]byte\<close>) are lists of 8-bit words.  A nil slice and an
  empty slice are both \<open>[]\<close>: the code under study only ever reads their length and
  contents.  \<open>uint64\<close> values (timestamps, input indices, length prefixes) are 64-bit
  words.
\<close>

type_synonym byte = "8 word"
type_synonym bytes = "byte list"
type_synonym Timestamp = "64 word"

text \<open>
  Every error value of \<open>types/inputlock.go\<close>.  \<open>ErrorString\<close> stands for an
  anonymous \<open>errors.New\<close>/\<open>fmt.Errorf\<close> value, \<open>Panic\<close> for a Go panic (a failed
  type assertion, a nil interface), the last two for what the codec and the signature
  check report.
\<close>

datatype error =
    ErrInvalidInputLockType
  | ErrUnlockConditionLocked
  | ErrInvalidPreImageSha256
  | ErrInvalidRedeemer
  | ErrEntropyKey
  | ErrorString string
  | Panic string
  | ErrDecode string
  | ErrInvalidSignature

text \<open>
  Modelled from the spec: the \<open>encoding\<close> package (Marshal, Unmarshal, Encoder,
  Decoder) is not among the files at hand.  Section 4.1 fixes it: integers are
  little-endian and fixed-width, a sequence is an 8-byte little-endian length prefix
  followed by its elements, a fixed-size array is its elements alone, and a top-level
  decode rejects trailing bytes.
\<close>

fun enc_le :: "nat \<Rightarrow> nat \<Rightarrow> bytes" where
  "enc_le 0 n = []"
| "enc_le (Suc k) n = of_nat (n mod 256) # enc_le k (n div 256)"

fun dec_le :: "bytes \<Rightarrow> nat" where
  "dec_le [] = 0"
| "dec_le (b # bs) = unat b + 256 * dec_le bs"

definition EncUint64 :: "64 word \<Rightarrow> bytes" where
  "EncUint64 w = enc_le 8 (unat w)"

definition DecUint64 :: "bytes \<Rightarrow> 64 word" where
  "DecUint64 bs = of_nat (dec_le bs)"

text \<open>A decoder reads from a stream; the stream is the list of bytes not yet read.\<close>

definition ReadFull :: "nat \<Rightarrow> bytes \<Rightarrow> error + (bytes \<times> bytes)" where
  "ReadFull n r =
     (if length r < n then Inl (ErrDecode ''unexpected EOF'')
      else Inr (take n r, drop n r))"

definition decode_uint64 :: "bytes \<Rightarrow> error + (64 word \<times> bytes)" where
  "decode_uint64 r =
     (case ReadFull 8 r of
        Inl e \<Rightarrow> Inl e
      | Inr (b, r') \<Rightarrow> Inr (DecUint64 b, r'))"

definition encode_bytes :: "bytes \<Rightarrow> bytes" where
  "encode_bytes b = EncUint64 (of_nat (length b)) @ b"

definition decode_bytes :: "bytes \<Rightarrow> error + (bytes \<times> bytes)" where
  "decode_bytes r =
     (case decode_uint64 r of
        Inl e \<Rightarrow> Inl e
      | Inr (n, r') \<Rightarrow> ReadFull (unat n) r')"

definition Unmarshal :: "(bytes \<Rightarrow> error + ('a \<times> bytes)) \<Rightarrow> bytes \<Rightarrow> error + 'a" where
  "Unmarshal dec b =
     (case dec b of
        Inl e \<Rightarrow> Inl e
      | Inr (v, r) \<Rightarrow> if r = [] then Inr v else Inl (ErrDecode ''trailing bytes''))"

section \<open>Keys, unlock hashes and the cryptography adapter\<close>

text \<open>
  Modelled from the spec: \<open>UnlockType\<close>, \<open>UnlockHash\<close>, \<open>SiaPublicKey\<close>, the
  algorithm specifiers and the key and signature sizes are declared in files that are
  not at hand.  The unlock type is one byte (nil \<open>0x00\<close>, single signature \<open>0x01\<close> and
  atomic swap \<open>0x02\<close>, as the comments of \<open>inputlock.go\<close> number them); an unlock
  hash is that byte and a 32-byte hash; a public key is a 16-byte algorithm specifier
  and a key; an Ed25519 public key has 32 bytes and a signature 64 (section 4.2).
\<close>

type_synonym UnlockType = byte
type_synonym Specifier = bytes

definition UnlockTypeNil :: UnlockType where
  "UnlockTypeNil = 0"

definition UnlockTypeSingleSignature :: UnlockType where
  "UnlockTypeSingleSignature = 1"

definition UnlockTypeAtomicSwap :: UnlockType where
  "UnlockTypeAtomicSwap = 2"

definition specifier :: "string \<Rightarrow> Specifier" where
  "specifier s = take 16 (map of_char s @ replicate 16 0)"

definition SignatureEntropy :: Specifier where
  "SignatureEntropy = specifier ''entropy''"

definition SignatureEd25519 :: Specifier where
  "SignatureEd25519 = specifier ''ed25519''"

definition PublicKeySize :: nat where
  "PublicKeySize = 32"

definition SignatureSize :: nat where
  "SignatureSize = 64"

definition HashSize :: nat where
  "HashSize = 32"

record SiaPublicKey =
  Algorithm :: Specifier
  Key :: bytes

record UnlockHash =
  Type :: UnlockType
  Hash :: bytes

definition NewUnlockHash :: "UnlockType \<Rightarrow> bytes \<Rightarrow> UnlockHash" where
  "NewUnlockHash t h = \<lparr>Type = t, Hash = h\<rparr>"

definition encode_SiaPublicKey :: "SiaPublicKey \<Rightarrow> bytes" where
  "encode_SiaPublicKey pk = Algorithm pk @ encode_bytes (Key pk)"

definition decode_SiaPublicKey :: "bytes \<Rightarrow> error + (SiaPublicKey \<times> bytes)" where
  "decode_SiaPublicKey r =
     (case ReadFull 16 r of
        Inl e \<Rightarrow> Inl e
      | Inr (a, r1) \<Rightarrow>
          (case decode_bytes r1 of
             Inl e \<Rightarrow> Inl e
           | Inr (k, r2) \<Rightarrow> Inr (\<lparr>Algorithm = a, Key = k\<rparr>, r2)))"

definition encode_UnlockHash :: "UnlockHash \<Rightarrow> bytes" where
  "encode_UnlockHash uh = Type uh # Hash uh"

definition decode_UnlockHash :: "bytes \<Rightarrow> error + (UnlockHash \<times> bytes)" where
  "decode_UnlockHash r =
     (case r of
        [] \<Rightarrow> Inl (ErrDecode ''unexpected EOF'')
      | t # r1 \<Rightarrow>
          (case ReadFull HashSize r1 of
             Inl e \<Rightarrow> Inl e
           | Inr (h, r2) \<Rightarrow> Inr (\<lparr>Type = t, Hash = h\<rparr>, r2)))"

text \<open>
  What the code takes from outside and no claim looks into: the object hash of the
  \<open>crypto\<close> package, SHA-256, Ed25519 signing and verification, the signature hash of
  an input of a transaction (with its extra signed objects, here byte strings), all
  gathered in one record.  \<open>'tx\<close> is the transaction type.  The wall clock,
  \<open>CurrentTimestamp()\<close>, is an argument of each function that reads it.
\<close>

record 'tx crypto =
  HashBytes :: "bytes \<Rightarrow> bytes"
  Sum256 :: "bytes \<Rightarrow> bytes"
  SignHash :: "bytes \<Rightarrow> bytes \<Rightarrow> bytes"
  VerifyHash :: "bytes \<Rightarrow> bytes \<Rightarrow> bytes \<Rightarrow> error option"
  InputSigHash :: "'tx \<Rightarrow> 64 word \<Rightarrow> bytes list \<Rightarrow> bytes"

text \<open>
  Modelled from the spec: \<open>crypto.HashObject\<close> is the hash of the canonical encoding
  of its argument (section 4.2); the argument is always a byte slice here.
\<close>

definition HashObject :: "'tx crypto \<Rightarrow> bytes \<Rightarrow> bytes" where
  "HashObject c obj = HashBytes c (encode_bytes obj)"

section \<open>Input locks\<close>

text \<open>
  The structs of \<open>types/inputlock.go\<close>.  Field names carry a prefix where two structs
  share a name.  \<open>key interface{}\<close> is whatever the caller hands to \<open>Lock\<close>: a secret
  key, one of the two atomic-swap key structs, or anything else.
\<close>

record RawInputLockFormat =
  Condition :: bytes
  Fulfillment :: bytes

record UnknownInputLock =
  u_Condition :: bytes
  u_Fulfillment :: bytes

record SingleSignatureInputLock =
  ss_PublicKey :: SiaPublicKey
  ss_Signature :: bytes

record AtomicSwapRefundKey =
  rk_PublicKey :: SiaPublicKey
  rk_SecretKey :: bytes

record AtomicSwapClaimKey =
  ck_PublicKey :: SiaPublicKey
  ck_SecretKey :: bytes
  ck_Secret :: bytes

record AtomicSwapInputLock =
  Timelock :: Timestamp
  Sender :: UnlockHash
  Receiver :: UnlockHash
  HashedSecret :: bytes
  PublicKey :: SiaPublicKey
  Signature :: bytes
  Secret :: bytes

record AtomicSwapCondition =
  c_Sender :: UnlockHash
  c_Receiver :: UnlockHash
  c_HashedSecret :: bytes
  c_Timelock :: Timestamp

record AtomicSwapFulfillment =
  f_PublicKey :: SiaPublicKey
  f_Signature :: bytes
  f_Secret :: bytes

datatype key =
    KeySecret bytes
  | KeyClaim AtomicSwapClaimKey
  | KeyRefund AtomicSwapRefundKey
  | KeyOther

text \<open>
  The \<open>InputLock\<close> interface holds a pointer to one of the three lock structs; a lock
  constructor returns a fresh one, and is never nil (\<open>RegisterUnlockType\<close> panics on a
  nil constructor).  \<open>_RegisteredUnlockTypes\<close> is a global map: it is passed to the one
  function that reads it.  A proxy is a type byte and a possibly nil
  interface.
\<close>

datatype InputLock =
    Unknown UnknownInputLock
  | SingleSignature SingleSignatureInputLock
  | AtomicSwap AtomicSwapInputLock

type_synonym InputLockConstructor = InputLock

type_synonym registry = "UnlockType \<rightharpoonup> InputLockConstructor"

record InputLockProxy =
  t :: UnlockType
  il :: "InputLock option"

definition ZeroSiaPublicKey :: SiaPublicKey where
  "ZeroSiaPublicKey = \<lparr>Algorithm = replicate 16 0, Key = []\<rparr>"

definition ZeroUnlockHash :: UnlockHash where
  "ZeroUnlockHash = \<lparr>Type = 0, Hash = replicate HashSize 0\<rparr>"

definition new_UnknownInputLock :: InputLock where
  "new_UnknownInputLock = Unknown \<lparr>u_Condition = [], u_Fulfillment = []\<rparr>"

definition new_SingleSignatureInputLock :: InputLock where
  "new_SingleSignatureInputLock =
     SingleSignature \<lparr>ss_PublicKey = ZeroSiaPublicKey, ss_Signature = []\<rparr>"

definition new_AtomicSwapInputLock :: InputLock where
  "new_AtomicSwapInputLock =
     AtomicSwap \<lparr>Timelock = 0, Sender = ZeroUnlockHash, Receiver = ZeroUnlockHash,
       HashedSecret = replicate 32 0, PublicKey = ZeroSiaPublicKey, Signature = [],
       Secret = replicate 32 0\<rparr>"

definition RegisterUnlockType :: "UnlockType \<Rightarrow> InputLockConstructor \<Rightarrow> registry \<Rightarrow> registry" where
  "RegisterUnlockType ut ilc reg = reg(ut \<mapsto> ilc)"

definition UnregisterUnlockType :: "UnlockType \<Rightarrow> registry \<Rightarrow> registry" where
  "UnregisterUnlockType ut reg = reg(ut := None)"

definition init :: registry where
  "init =
     RegisterUnlockType UnlockTypeAtomicSwap new_AtomicSwapInputLock
       (RegisterUnlockType UnlockTypeSingleSignature new_SingleSignatureInputLock Map.empty)"

subsection \<open>Signing and verifying with a public key\<close>

definition strictSignatureCheck :: "SiaPublicKey \<Rightarrow> bytes \<Rightarrow> error option" where
  "strictSignatureCheck pk signature =
     (if Algorithm pk = SignatureEntropy then None
      else if Algorithm pk = SignatureEd25519 then
        (if length (Key pk) \<noteq> PublicKeySize
           then Some (ErrorString ''invalid public key size in transaction'')
         else if length signature \<noteq> SignatureSize
           then Some (ErrorString ''invalid signature size in transaction'')
         else None)
      else Some (ErrorString ''unrecognized public key type in transaction''))"

text \<open>
  \<open>signHashUsingSiaPublicKey\<close> returns a signature and an error.  The type assertion
  \<open>key.(crypto.SecretKey)\<close> of the Ed25519 branch panics on any other key.
\<close>

definition signHashUsingSiaPublicKey ::
  "'tx crypto \<Rightarrow> SiaPublicKey \<Rightarrow> 64 word \<Rightarrow> 'tx \<Rightarrow> key \<Rightarrow> bytes list \<Rightarrow> bytes \<times> error option" where
  "signHashUsingSiaPublicKey c pk inputIndex tx k extraObjects =
     (if Algorithm pk = SignatureEntropy then ([], Some ErrEntropyKey)
      else if Algorithm pk = SignatureEd25519 then
        (let sigHash = InputSigHash c tx inputIndex extraObjects in
         case k of
           KeySecret sk \<Rightarrow> (SignHash c sigHash sk, None)
         | _ \<Rightarrow> ([], Some (Panic ''interface conversion: key is not crypto.SecretKey'')))
      else ([], None))"

definition verifyHashUsingSiaPublicKey ::
  "'tx crypto \<Rightarrow> SiaPublicKey \<Rightarrow> 64 word \<Rightarrow> 'tx \<Rightarrow> bytes \<Rightarrow> bytes list \<Rightarrow> error option" where
  "verifyHashUsingSiaPublicKey c pk inputIndex tx sig extraObjects =
     (if Algorithm pk = SignatureEntropy then Some ErrEntropyKey
      else if Algorithm pk = SignatureEd25519 then
        (case Unmarshal (ReadFull PublicKeySize) (Key pk) of
           Inl e \<Rightarrow> Some e
         | Inr edPK \<Rightarrow>
             (case Unmarshal (ReadFull SignatureSize) sig of
                Inl e \<Rightarrow> Some e
              | Inr edSig \<Rightarrow>
                  (let sigHash = InputSigHash c tx inputIndex extraObjects in
                   case VerifyHash c sigHash edPK edSig of
                     Some e \<Rightarrow> Some e
                   | None \<Rightarrow> None)))
      else None)"

subsection \<open>The unknown lock\<close>

definition Unknown_EncodeCondition :: "UnknownInputLock \<Rightarrow> bytes" where
  "Unknown_EncodeCondition u = u_Condition u"

definition Unknown_EncodeFulfillment :: "UnknownInputLock \<Rightarrow> bytes" where
  "Unknown_EncodeFulfillment u = u_Fulfillment u"

definition Unknown_Decode :: "RawInputLockFormat \<Rightarrow> UnknownInputLock \<Rightarrow> error option \<times> UnknownInputLock" where
  "Unknown_Decode rf u =
     (None, u\<lparr>u_Condition := Condition rf, u_Fulfillment := Fulfillment rf\<rparr>)"

definition Unknown_Lock :: "64 word \<Rightarrow> 'tx \<Rightarrow> key \<Rightarrow> UnknownInputLock \<Rightarrow> error option \<times> UnknownInputLock" where
  "Unknown_Lock inputIndex tx k u = (None, u)"

definition Unknown_Unlock :: "64 word \<Rightarrow> 'tx \<Rightarrow> UnknownInputLock \<Rightarrow> error option" where
  "Unknown_Unlock inputIndex tx u = None"

definition Unknown_StrictCheck :: "UnknownInputLock \<Rightarrow> error option" where
  "Unknown_StrictCheck u = Some (ErrorString ''unknown input lock'')"

subsection \<open>The single-signature lock\<close>

definition SingleSignature_EncodeCondition :: "SingleSignatureInputLock \<Rightarrow> bytes" where
  "SingleSignature_EncodeCondition ss = encode_SiaPublicKey (ss_PublicKey ss)"

definition SingleSignature_EncodeFulfillment :: "SingleSignatureInputLock \<Rightarrow> bytes" where
  "SingleSignature_EncodeFulfillment ss = ss_Signature ss"

definition SingleSignature_Decode ::
  "RawInputLockFormat \<Rightarrow> SingleSignatureInputLock \<Rightarrow> error option \<times> SingleSignatureInputLock" where
  "SingleSignature_Decode rf ss =
     (let ss1 = ss\<lparr>ss_Signature := Fulfillment rf\<rparr> in
      case Unmarshal decode_SiaPublicKey (Condition rf) of
        Inl e \<Rightarrow> (Some e, ss1)
      | Inr pk \<Rightarrow> (None, ss1\<lparr>ss_PublicKey := pk\<rparr>))"

definition SingleSignature_Lock ::
  "'tx crypto \<Rightarrow> 64 word \<Rightarrow> 'tx \<Rightarrow> key \<Rightarrow> SingleSignatureInputLock
     \<Rightarrow> error option \<times> SingleSignatureInputLock" where
  "SingleSignature_Lock c inputIndex tx k ss =
     (if length (ss_Signature ss) \<noteq> 0 then (Some ErrUnlockConditionLocked, ss)
      else
        (case signHashUsingSiaPublicKey c (ss_PublicKey ss) inputIndex tx k [] of
           (sig, err) \<Rightarrow> (err, ss\<lparr>ss_Signature := sig\<rparr>)))"

definition SingleSignature_Unlock ::
  "'tx crypto \<Rightarrow> 64 word \<Rightarrow> 'tx \<Rightarrow> SingleSignatureInputLock \<Rightarrow> error option" where
  "SingleSignature_Unlock c inputIndex tx ss =
     verifyHashUsingSiaPublicKey c (ss_PublicKey ss) inputIndex tx (ss_Signature ss) []"

definition SingleSignature_StrictCheck :: "SingleSignatureInputLock \<Rightarrow> error option" where
  "SingleSignature_StrictCheck ss = strictSignatureCheck (ss_PublicKey ss) (ss_Signature ss)"

subsection \<open>Encoding of the atomic-swap lock\<close>

text \<open>
  Modelled from the spec: a struct is encoded as its fields, one after the other in the
  order of their declaration (section 4.1: the elements are concatenated, and only
  sequences carry a length).
\<close>

definition encode_AtomicSwapCondition :: "AtomicSwapCondition \<Rightarrow> bytes" where
  "encode_AtomicSwapCondition cond =
     encode_UnlockHash (c_Sender cond) @ encode_UnlockHash (c_Receiver cond)
       @ c_HashedSecret cond @ EncUint64 (c_Timelock cond)"

definition decode_AtomicSwapCondition :: "bytes \<Rightarrow> error + (AtomicSwapCondition \<times> bytes)" where
  "decode_AtomicSwapCondition r =
     (case decode_UnlockHash r of
        Inl e \<Rightarrow> Inl e
      | Inr (s, r1) \<Rightarrow>
     (case decode_UnlockHash r1 of
        Inl e \<Rightarrow> Inl e
      | Inr (rc, r2) \<Rightarrow>
     (case ReadFull 32 r2 of
        Inl e \<Rightarrow> Inl e
      | Inr (hs, r3) \<Rightarrow>
     (case decode_uint64 r3 of
        Inl e \<Rightarrow> Inl e
      | Inr (tlock, r4) \<Rightarrow>
          Inr (\<lparr>c_Sender = s, c_Receiver = rc, c_HashedSecret = hs, c_Timelock = tlock\<rparr>, r4)))))"

definition encode_AtomicSwapFulfillment :: "AtomicSwapFulfillment \<Rightarrow> bytes" where
  "encode_AtomicSwapFulfillment ful =
     encode_SiaPublicKey (f_PublicKey ful) @ encode_bytes (f_Signature ful) @ f_Secret ful"

definition decode_AtomicSwapFulfillment :: "bytes \<Rightarrow> error + (AtomicSwapFulfillment \<times> bytes)" where
  "decode_AtomicSwapFulfillment r =
     (case decode_SiaPublicKey r of
        Inl e \<Rightarrow> Inl e
      | Inr (pk, r1) \<Rightarrow>
     (case decode_bytes r1 of
        Inl e \<Rightarrow> Inl e
      | Inr (sig, r2) \<Rightarrow>
     (case ReadFull 32 r2 of
        Inl e \<Rightarrow> Inl e
      | Inr (sec, r3) \<Rightarrow>
          Inr (\<lparr>f_PublicKey = pk, f_Signature = sig, f_Secret = sec\<rparr>, r3))))"

definition AtomicSwap_EncodeCondition :: "AtomicSwapInputLock \<Rightarrow> bytes" where
  "AtomicSwap_EncodeCondition as =
     encode_AtomicSwapCondition
       \<lparr>c_Sender = Sender as, c_Receiver = Receiver as,
        c_HashedSecret = HashedSecret as, c_Timelock = Timelock as\<rparr>"

definition AtomicSwap_EncodeFulfillment :: "AtomicSwapInputLock \<Rightarrow> bytes" where
  "AtomicSwap_EncodeFulfillment as =
     encode_AtomicSwapFulfillment
       \<lparr>f_PublicKey = PublicKey as, f_Signature = Signature as, f_Secret = Secret as\<rparr>"

definition AtomicSwap_Decode ::
  "RawInputLockFormat \<Rightarrow> AtomicSwapInputLock \<Rightarrow> error option \<times> AtomicSwapInputLock" where
  "AtomicSwap_Decode rf as =
     (case Unmarshal decode_AtomicSwapCondition (Condition rf) of
        Inl e \<Rightarrow> (Some e, as)
      | Inr cond \<Rightarrow>
          (let as1 = as\<lparr>Timelock := c_Timelock cond, Sender := c_Sender cond,
                          Receiver := c_Receiver cond, HashedSecret := c_HashedSecret cond\<rparr> in
           case Unmarshal decode_AtomicSwapFulfillment (Fulfillment rf) of
             Inl e \<Rightarrow> (Some e, as1)
           | Inr ful \<Rightarrow>
               (None, as1\<lparr>PublicKey := f_PublicKey ful, Signature := f_Signature ful,
                            Secret := f_Secret ful\<rparr>)))"

definition AtomicSwap_StrictCheck :: "AtomicSwapInputLock \<Rightarrow> error option" where
  "AtomicSwap_StrictCheck as = strictSignatureCheck (PublicKey as) (Signature as)"

subsection \<open>The proxy: construction and the unlock hash\<close>

fun il_EncodeCondition :: "InputLock \<Rightarrow> bytes" where
  "il_EncodeCondition (Unknown u) = Unknown_EncodeCondition u"
| "il_EncodeCondition (SingleSignature ss) = SingleSignature_EncodeCondition ss"
| "il_EncodeCondition (AtomicSwap as) = AtomicSwap_EncodeCondition as"

fun il_EncodeFulfillment :: "InputLock \<Rightarrow> bytes" where
  "il_EncodeFulfillment (Unknown u) = Unknown_EncodeFulfillment u"
| "il_EncodeFulfillment (SingleSignature ss) = SingleSignature_EncodeFulfillment ss"
| "il_EncodeFulfillment (AtomicSwap as) = AtomicSwap_EncodeFulfillment as"

definition nil_pointer :: error where
  "nil_pointer = Panic ''invalid memory address or nil pointer dereference''"

definition NewInputLockProxy :: "UnlockType \<Rightarrow> InputLock option \<Rightarrow> error + InputLockProxy" where
  "NewInputLockProxy ut l =
     (if ut \<noteq> UnlockTypeNil \<and> l = None then Inl (Panic ''unexpected nil input lock'')
      else Inr \<lparr>t = ut, il = l\<rparr>)"

definition NewSingleSignatureInputLock :: "SiaPublicKey \<Rightarrow> error + InputLockProxy" where
  "NewSingleSignatureInputLock pk =
     NewInputLockProxy UnlockTypeSingleSignature
       (Some (SingleSignature \<lparr>ss_PublicKey = pk, ss_Signature = []\<rparr>))"

definition NewAtomicSwapInputLock ::
  "UnlockHash \<Rightarrow> UnlockHash \<Rightarrow> bytes \<Rightarrow> Timestamp \<Rightarrow> error + InputLockProxy" where
  "NewAtomicSwapInputLock s r hs tlock =
     NewInputLockProxy UnlockTypeAtomicSwap
       (Some (AtomicSwap \<lparr>Timelock = tlock, Sender = s, Receiver = r, HashedSecret = hs,
          PublicKey = ZeroSiaPublicKey, Signature = [], Secret = replicate 32 0\<rparr>))"

definition proxy_UnlockHash :: "'tx crypto \<Rightarrow> InputLockProxy \<Rightarrow> error + UnlockHash" where
  "proxy_UnlockHash c p =
     (if t p = UnlockTypeNil then Inr ZeroUnlockHash
      else
        (case il p of
           None \<Rightarrow> Inl nil_pointer
         | Some l \<Rightarrow> Inr (NewUnlockHash (t p) (HashObject c (il_EncodeCondition l)))))"

subsection \<open>Locking and unlocking an atomic swap\<close>

text \<open>\<open>now\<close> is the value \<open>CurrentTimestamp()\<close> returns in the call.\<close>

definition AtomicSwap_Lock ::
  "'tx crypto \<Rightarrow> Timestamp \<Rightarrow> 64 word \<Rightarrow> 'tx \<Rightarrow> key \<Rightarrow> AtomicSwapInputLock
     \<Rightarrow> error option \<times> AtomicSwapInputLock" where
  "AtomicSwap_Lock c now inputIndex tx k as =
     (if length (Signature as) \<noteq> 0 then (Some ErrUnlockConditionLocked, as)
      else
        (case k of
           KeyClaim v \<Rightarrow>
             (if now > Timelock as
                then (Some (ErrorString ''atomic swap contract expired already''), as)
              else
                (let as1 = as\<lparr>Secret := ck_Secret v, PublicKey := ck_PublicKey v\<rparr>;
                     hashedSecret = Sum256 c (Secret as1)
                 in if HashedSecret as1 \<noteq> hashedSecret then (Some ErrInvalidPreImageSha256, as1)
                    else
                      (case signHashUsingSiaPublicKey c (ck_PublicKey v) inputIndex tx
                              (KeySecret (ck_SecretKey v)) [Secret as1] of
                         (sig, err) \<Rightarrow> (err, as1\<lparr>Signature := sig\<rparr>))))
         | KeyRefund v \<Rightarrow>
             (if now \<le> Timelock as
                then (Some (ErrorString ''atomic swap contract not yet expired''), as)
              else
                (let as1 = as\<lparr>PublicKey := rk_PublicKey v\<rparr>
                 in case signHashUsingSiaPublicKey c (rk_PublicKey v) inputIndex tx
                           (KeySecret (rk_SecretKey v)) [] of
                      (sig, err) \<Rightarrow> (err, as1\<lparr>Signature := sig\<rparr>)))
         | _ \<Rightarrow> (Some (ErrorString ''cannot atomic-swap-lock using this key''), as)))"

definition AtomicSwap_Unlock ::
  "'tx crypto \<Rightarrow> Timestamp \<Rightarrow> 64 word \<Rightarrow> 'tx \<Rightarrow> AtomicSwapInputLock \<Rightarrow> error option" where
  "AtomicSwap_Unlock c now inputIndex tx as =
     (case (case NewSingleSignatureInputLock (PublicKey as) of
              Inl e \<Rightarrow> Inl e
            | Inr p \<Rightarrow> proxy_UnlockHash c p) of
        Inl e \<Rightarrow> Some e
      | Inr unlockHash \<Rightarrow>
          (if now \<le> Timelock as then
             (if Type unlockHash \<noteq> Type (Receiver as) \<or> Hash unlockHash \<noteq> Hash (Receiver as)
                then Some ErrInvalidRedeemer
              else
                (case verifyHashUsingSiaPublicKey c (PublicKey as) inputIndex tx
                        (Signature as) [Secret as] of
                   Some e \<Rightarrow> Some e
                 | None \<Rightarrow>
                     (let hashedSecret = Sum256 c (Secret as)
                      in if HashedSecret as \<noteq> hashedSecret then Some ErrInvalidPreImageSha256
                         else None)))
           else if Type unlockHash \<noteq> Type (Sender as) \<or> Hash unlockHash \<noteq> Hash (Sender as)
             then Some ErrInvalidRedeemer
           else verifyHashUsingSiaPublicKey c (PublicKey as) inputIndex tx (Signature as) []))"

subsection \<open>Dispatch through the interface\<close>

fun il_Decode :: "RawInputLockFormat \<Rightarrow> InputLock \<Rightarrow> error option \<times> InputLock" where
  "il_Decode rf (Unknown u) = (case Unknown_Decode rf u of (err, u') \<Rightarrow> (err, Unknown u'))"
| "il_Decode rf (SingleSignature ss) =
     (case SingleSignature_Decode rf ss of (err, ss') \<Rightarrow> (err, SingleSignature ss'))"
| "il_Decode rf (AtomicSwap as) =
     (case AtomicSwap_Decode rf as of (err, as') \<Rightarrow> (err, AtomicSwap as'))"

fun il_Lock ::
  "'tx crypto \<Rightarrow> Timestamp \<Rightarrow> 64 word \<Rightarrow> 'tx \<Rightarrow> key \<Rightarrow> InputLock \<Rightarrow> error option \<times> InputLock" where
  "il_Lock c now inputIndex tx k (Unknown u) =
     (case Unknown_Lock inputIndex tx k u of (err, u') \<Rightarrow> (err, Unknown u'))"
| "il_Lock c now inputIndex tx k (SingleSignature ss) =
     (case SingleSignature_Lock c inputIndex tx k ss of (err, ss') \<Rightarrow> (err, SingleSignature ss'))"
| "il_Lock c now inputIndex tx k (AtomicSwap as) =
     (case AtomicSwap_Lock c now inputIndex tx k as of (err, as') \<Rightarrow> (err, AtomicSwap as'))"

fun il_Unlock :: "'tx crypto \<Rightarrow> Timestamp \<Rightarrow> 64 word \<Rightarrow> 'tx \<Rightarrow> InputLock \<Rightarrow> error option" where
  "il_Unlock c now inputIndex tx (Unknown u) = Unknown_Unlock inputIndex tx u"
| "il_Unlock c now inputIndex tx (SingleSignature ss) = SingleSignature_Unlock c inputIndex tx ss"
| "il_Unlock c now inputIndex tx (AtomicSwap as) = AtomicSwap_Unlock c now inputIndex tx as"

fun il_StrictCheck :: "InputLock \<Rightarrow> error option" where
  "il_StrictCheck (Unknown u) = Unknown_StrictCheck u"
| "il_StrictCheck (SingleSignature ss) = SingleSignature_StrictCheck ss"
| "il_StrictCheck (AtomicSwap as) = AtomicSwap_StrictCheck as"

subsection \<open>The proxy: encoding, locking, unlocking, strict check\<close>

definition encode_RawInputLockFormat :: "RawInputLockFormat \<Rightarrow> bytes" where
  "encode_RawInputLockFormat rf = encode_bytes (Condition rf) @ encode_bytes (Fulfillment rf)"

definition decode_RawInputLockFormat :: "bytes \<Rightarrow> error + (RawInputLockFormat \<times> bytes)" where
  "decode_RawInputLockFormat r =
     (case decode_bytes r of
        Inl e \<Rightarrow> Inl e
      | Inr (cond, r1) \<Rightarrow>
          (case decode_bytes r1 of
             Inl e \<Rightarrow> Inl e
           | Inr (ful, r2) \<Rightarrow> Inr (\<lparr>Condition = cond, Fulfillment = ful\<rparr>, r2)))"

text \<open>
  \<open>MarshalSia\<close> writes to a buffer: the result is what was written.  \<open>UnmarshalSia\<close>
  works on the proxy it is called on and on a stream: it returns its error, the proxy
  as it has become and the rest of the stream (nothing, once a read has failed).
\<close>

definition proxy_MarshalSia :: "InputLockProxy \<Rightarrow> error + bytes" where
  "proxy_MarshalSia p =
     (if t p = UnlockTypeNil then Inr [t p]
      else
        (case il p of
           None \<Rightarrow> Inl nil_pointer
         | Some l \<Rightarrow>
             Inr ([t p] @ encode_RawInputLockFormat
                    \<lparr>Condition = il_EncodeCondition l, Fulfillment = il_EncodeFulfillment l\<rparr>)))"

definition proxy_UnmarshalSia ::
  "registry \<Rightarrow> InputLockProxy \<Rightarrow> bytes \<Rightarrow> error option \<times> InputLockProxy \<times> bytes" where
  "proxy_UnmarshalSia reg p r =
     (case r of
        [] \<Rightarrow> (Some (ErrDecode ''unexpected EOF''), p, [])
      | b # r1 \<Rightarrow>
          (let p1 = p\<lparr>t := b\<rparr> in
           if b = UnlockTypeNil then (None, p1, r1)
           else
             (case decode_RawInputLockFormat r1 of
                Inl e \<Rightarrow> (Some e, p1, [])
              | Inr (rf, r2) \<Rightarrow>
                  (let fresh = (case reg b of Some ilc \<Rightarrow> ilc | None \<Rightarrow> new_UnknownInputLock)
                   in case il_Decode rf fresh of
                        (err, l) \<Rightarrow> (err, p1\<lparr>il := Some l\<rparr>, r2)))))"

text \<open>
  \<open>Lock\<close> calls the lock's \<open>Lock\<close> and then its \<open>Unlock\<close>; each reads the clock for
  itself, so the proxy's \<open>Lock\<close> takes both readings.  The lock struct is mutated
  through its pointer even when an error is returned.
\<close>

definition proxy_Lock ::
  "'tx crypto \<Rightarrow> Timestamp \<Rightarrow> Timestamp \<Rightarrow> 64 word \<Rightarrow> 'tx \<Rightarrow> key \<Rightarrow> InputLockProxy
     \<Rightarrow> error option \<times> InputLockProxy" where
  "proxy_Lock c now_lock now_unlock inputIndex tx k p =
     (if t p = UnlockTypeNil then (Some (ErrorString ''nil input lock cannot be locked''), p)
      else
        (case il p of
           None \<Rightarrow> (Some nil_pointer, p)
         | Some l \<Rightarrow>
             (case il_Lock c now_lock inputIndex tx k l of
                (Some e, l') \<Rightarrow> (Some e, p\<lparr>il := Some l'\<rparr>)
              | (None, l') \<Rightarrow> (il_Unlock c now_unlock inputIndex tx l', p\<lparr>il := Some l'\<rparr>))))"

definition proxy_Unlock ::
  "'tx crypto \<Rightarrow> Timestamp \<Rightarrow> 64 word \<Rightarrow> 'tx \<Rightarrow> InputLockProxy \<Rightarrow> error option" where
  "proxy_Unlock c now inputIndex tx p =
     (if t p = UnlockTypeNil then Some (ErrorString ''nil input lock cannot be unlocked'')
      else
        (case il p of
           None \<Rightarrow> Some nil_pointer
         | Some l \<Rightarrow> il_Unlock c now inputIndex tx l))"

definition proxy_StrictCheck :: "InputLockProxy \<Rightarrow> error option" where
  "proxy_StrictCheck p =
     (if t p = UnlockTypeNil then Some (ErrorString ''nil input lock'')
      else
        (case il p of
           None \<Rightarrow> Some nil_pointer
         | Some l \<Rightarrow> il_StrictCheck l))"

section \<open>The genesis state of the consensus package\<close>

text \<open>
  \<open>CreateGenesisState\<close> and the \<open>State\<close> struct.  The block, its identifiers, the
  coinbase schedule and the root target and depth are declared in files that are not at
  hand: they are the fields of \<open>chain\<close>, and the theorems hold for every value of
  them.  Of a block only the timestamp is set by the code; a file contract is never
  built.  The mutex is left out.  \<open>Currency\<close> is an unbounded natural number;
  identifiers, addresses and targets are 32-byte arrays.
\<close>

type_synonym BlockID = bytes
type_synonym OutputID = bytes
type_synonym FileContractID = bytes
type_synonym CoinAddress = bytes
type_synonym Target = bytes
type_synonym BlockHeight = "64 word"
type_synonym Currency = nat

typedecl FileContract

record Block =
  Timestamp :: Timestamp

record SiacoinOutput =
  sco_Value :: Currency
  sco_SpendHash :: CoinAddress

record SiafundOutput =
  sfo_Value :: Currency
  sfo_SpendHash :: CoinAddress
  sfo_ClaimDestination :: CoinAddress

record blockNode =
  block :: Block
  target :: Target
  depth :: Target

record chain =
  Block_ID :: "Block \<Rightarrow> BlockID"
  Block_MinerPayoutID :: "Block \<Rightarrow> int \<Rightarrow> OutputID"
  CalculateCoinbase :: "BlockHeight \<Rightarrow> Currency"
  RootTarget :: Target
  RootDepth :: Target
  SiafundCount :: "64 word"

record State =
  blockRoot :: blockNode
  badBlocks :: "BlockID set"
  blockMap :: "BlockID \<rightharpoonup> blockNode"
  currentBlockID :: BlockID
  currentPath :: "BlockHeight \<rightharpoonup> BlockID"
  siafundPool :: Currency
  unspentSiacoinOutputs :: "OutputID \<rightharpoonup> SiacoinOutput"
  openFileContracts :: "FileContractID \<rightharpoonup> FileContract"
  unspentSiafundOutputs :: "OutputID \<rightharpoonup> SiafundOutput"
  delayedSiacoinOutputs :: "BlockHeight \<rightharpoonup> (OutputID \<rightharpoonup> SiacoinOutput)"

definition NewCurrency64 :: "64 word \<Rightarrow> Currency" where
  "NewCurrency64 x = unat x"

definition ZeroAddress :: CoinAddress where
  "ZeroAddress = replicate 32 0"

definition ZeroCurrency :: Currency where
  "ZeroCurrency = NewCurrency64 0"

definition CreateGenesisState :: "chain \<Rightarrow> Timestamp \<Rightarrow> State" where
  "CreateGenesisState ch genesisTime =
     (let genesisBlock = \<lparr>Timestamp = genesisTime\<rparr>;
          root = \<lparr>block = genesisBlock, target = RootTarget ch, depth = RootDepth ch\<rparr>;
          s0 = \<lparr>blockRoot = root, badBlocks = {}, blockMap = Map.empty,
                currentBlockID = replicate 32 0, currentPath = Map.empty, siafundPool = 0,
                unspentSiacoinOutputs = Map.empty, openFileContracts = Map.empty,
                unspentSiafundOutputs = Map.empty, delayedSiacoinOutputs = Map.empty\<rparr>;
          s1 = s0\<lparr>blockMap := (blockMap s0)(Block_ID ch genesisBlock \<mapsto> blockRoot s0)\<rparr>;
          s2 = s1\<lparr>currentBlockID := Block_ID ch genesisBlock\<rparr>;
          s3 = s2\<lparr>currentPath := (currentPath s2)(0 \<mapsto> Block_ID ch genesisBlock)\<rparr>;
          s4 = s3\<lparr>unspentSiacoinOutputs :=
                    (unspentSiacoinOutputs s3)(Block_MinerPayoutID ch genesisBlock 0 \<mapsto>
                       \<lparr>sco_Value = CalculateCoinbase ch 0, sco_SpendHash = ZeroAddress\<rparr>)\<rparr>;
          s5 = s4\<lparr>unspentSiafundOutputs :=
                    (unspentSiafundOutputs s4)(replicate 32 0 \<mapsto>
                       \<lparr>sfo_Value = NewCurrency64 (SiafundCount ch), sfo_SpendHash = ZeroAddress,
                        sfo_ClaimDestination = ZeroAddress\<rparr>)\<rparr>
      in s5)"

text \<open>
  The consensus variables of a state, as the comment in the struct singles them out:
  nodes on the same path agree on exactly these.
\<close>

definition consensus_variables ::
  "State \<Rightarrow> Currency \<times> (OutputID \<rightharpoonup> SiacoinOutput) \<times> (FileContractID \<rightharpoonup> FileContract)
     \<times> (OutputID \<rightharpoonup> SiafundOutput) \<times> (BlockHeight \<rightharpoonup> (OutputID \<rightharpoonup> SiacoinOutput))" where
  "consensus_variables s =
     (siafundPool s, unspentSiacoinOutputs s, openFileContracts s, unspentSiafundOutputs s,
      delayedSiacoinOutputs s)"

section \<open>A small instance of the cryptography adapter\<close>

text \<open>
  Concrete functions of the right shapes, on which the model runs: hashes of 32 bytes,
  a signature of 64 bytes made of the signed hash and the key, and a verification that
  recomputes it.  The transaction type is \<open>unit\<close>.
\<close>

definition sample_crypto :: "unit crypto" where
  "sample_crypto =
     \<lparr>HashBytes = (\<lambda>b. replicate 32 (sum_list b)),
      Sum256 = (\<lambda>b. replicate 32 (sum_list b + 1)),
      SignHash = (\<lambda>h sk. h @ sk),
      VerifyHash = (\<lambda>h pk sig. if sig = h @ pk then None else Some ErrInvalidSignature),
      InputSigHash = (\<lambda>tx i extra. replicate 32 (sum_list (concat extra)))\<rparr>"

definition sample_key :: SiaPublicKey where
  "sample_key = \<lparr>Algorithm = SignatureEd25519, Key = replicate 32 7\<rparr>"

definition sample_sender_key :: SiaPublicKey where
  "sample_sender_key = \<lparr>Algorithm = SignatureEd25519, Key = replicate 32 9\<rparr>"

definition sample_soft_fork_key :: SiaPublicKey where
  "sample_soft_fork_key = \<lparr>Algorithm = specifier ''secp256k1'', Key = [1, 2, 3]\<rparr>"

definition sample_secret :: bytes where
  "sample_secret = replicate 32 3"

text \<open>
  An atomic swap between the two sample keys with time lock 10, as
  \<open>NewAtomicSwapInputLock\<close> builds it, and the same contract once the receiver has
  claimed it and once the sender has taken the refund.
\<close>

definition sample_swap :: AtomicSwapInputLock where
  "sample_swap =
     \<lparr>Timelock = 10,
      Sender = NewUnlockHash UnlockTypeSingleSignature
                 (HashObject sample_crypto (encode_SiaPublicKey sample_sender_key)),
      Receiver = NewUnlockHash UnlockTypeSingleSignature
                 (HashObject sample_crypto (encode_SiaPublicKey sample_key)),
      HashedSecret = Sum256 sample_crypto sample_secret,
      PublicKey = ZeroSiaPublicKey, Signature = [], Secret = replicate 32 0\<rparr>"

definition sample_claimed :: AtomicSwapInputLock where
  "sample_claimed =
     sample_swap\<lparr>Secret := sample_secret, PublicKey := sample_key,
       Signature := SignHash sample_crypto
                      (InputSigHash sample_crypto () 0 [sample_secret]) (replicate 32 7)\<rparr>"

definition sample_refunded :: AtomicSwapInputLock where
  "sample_refunded =
     sample_swap\<lparr>PublicKey := sample_sender_key,
       Signature := SignHash sample_crypto (InputSigHash sample_crypto () 0 []) (replicate 32 9)\<rparr>"

definition sample_claim_key :: key where
  "sample_claim_key =
     KeyClaim \<lparr>ck_PublicKey = sample_key, ck_SecretKey = replicate 32 7, ck_Secret = sample_secret\<rparr>"

definition sample_proxy :: InputLockProxy where
  "sample_proxy = \<lparr>t = UnlockTypeAtomicSwap, il = Some (AtomicSwap sample_swap)\<rparr>"

text \<open>
  A swap whose receiver is the key of the unrecognised algorithm, fulfilled with that
  key and the sample secret, but created for another hashed secret.
\<close>

definition sample_soft_fork_swap :: AtomicSwapInputLock where
  "sample_soft_fork_swap =
     \<lparr>Timelock = 10,
      Sender = NewUnlockHash UnlockTypeSingleSignature
                 (HashObject sample_crypto (encode_SiaPublicKey sample_sender_key)),
      Receiver = NewUnlockHash UnlockTypeSingleSignature
                 (HashObject sample_crypto (encode_SiaPublicKey sample_soft_fork_key)),
      HashedSecret = replicate 32 0,
      PublicKey = sample_soft_fork_key, Signature = [], Secret = sample_secret\<rparr>"

definition sample_raw :: RawInputLockFormat where
  "sample_raw = \<lparr>Condition = [1, 2, 3], Fulfillment = [4, 5]\<rparr>"

definition sample_key_raw :: RawInputLockFormat where
  "sample_key_raw = \<lparr>Condition = encode_SiaPublicKey sample_key, Fulfillment = []\<rparr>"

section \<open>The clock and the time lock\<close>

text \<open>
  Two clock readings lie on the same side of the time lock of the lock a proxy holds:
  both at or before it, or both after it.  Only an atomic swap has a time lock; for
  every other proxy any two readings do.
\<close>

definition same_side_of_Timelock :: "Timestamp \<Rightarrow> Timestamp \<Rightarrow> InputLockProxy \<Rightarrow> bool" where
  "same_side_of_Timelock now now' p =
     (case il p of
        Some (AtomicSwap as) \<Rightarrow> (now \<le> Timelock as) = (now' \<le> Timelock as)
      | _ \<Rightarrow> True)"

section \<open>Well-formed values\<close>

text \<open>
  What the Go types guarantee and lists of bytes do not: an array has its declared
  length, the length of a slice fits the \<open>uint64\<close> of its length prefix, and the lock a
  proxy holds is of the struct that belongs to its type byte (the unknown lock for a
  type byte other than the two registered by \<open>init\<close>).
\<close>

definition valid_SiaPublicKey :: "SiaPublicKey \<Rightarrow> bool" where
  "valid_SiaPublicKey pk \<longleftrightarrow> length (Algorithm pk) = 16 \<and> length (Key pk) < 2 ^ 64"

fun valid_InputLock :: "InputLock \<Rightarrow> bool" where
  "valid_InputLock (Unknown u) \<longleftrightarrow> True"
| "valid_InputLock (SingleSignature ss) \<longleftrightarrow> valid_SiaPublicKey (ss_PublicKey ss)"
| "valid_InputLock (AtomicSwap as) \<longleftrightarrow>
     length (Hash (Sender as)) = HashSize \<and> length (Hash (Receiver as)) = HashSize
     \<and> length (HashedSecret as) = 32 \<and> length (Secret as) = 32
     \<and> valid_SiaPublicKey (PublicKey as) \<and> length (Signature as) < 2 ^ 64"

fun lock_of_type :: "UnlockType \<Rightarrow> InputLock \<Rightarrow> bool" where
  "lock_of_type ut (Unknown u) \<longleftrightarrow> ut \<noteq> UnlockTypeSingleSignature \<and> ut \<noteq> UnlockTypeAtomicSwap"
| "lock_of_type ut (SingleSignature ss) \<longleftrightarrow> ut = UnlockTypeSingleSignature"
| "lock_of_type ut (AtomicSwap as) \<longleftrightarrow> ut = UnlockTypeAtomicSwap"

definition valid_proxy :: "InputLockProxy \<Rightarrow> bool" where
  "valid_proxy p \<longleftrightarrow>
     (if t p = UnlockTypeNil then True
      else
        (case il p of
           None \<Rightarrow> False
         | Some l \<Rightarrow>
             lock_of_type (t p) l \<and> valid_InputLock l
             \<and> length (il_EncodeCondition l) < 2 ^ 64
             \<and> length (il_EncodeFulfillment l) < 2 ^ 64))"

section \<open>The codec inverts itself\<close>

lemma length_enc_le [simp]: "length (enc_le k n) = k"
  by (induction k arbitrary: n) simp_all

lemma unat_byte_of_nat: "unat (of_nat (n mod 256) :: byte) = n mod 256"
  by (simp add: unat_of_nat)

lemma dec_le_enc_le: "n < 256 ^ k \<Longrightarrow> dec_le (enc_le k n) = n"
proof (induction k arbitrary: n)
  case 0
  then show ?case by simp
next
  case (Suc k)
  from Suc.prems have "n div 256 < 256 ^ k"
    by (simp add: less_mult_imp_div_less mult.commute)
  with Suc.IH have "dec_le (enc_le k (n div 256)) = n div 256" .
  then show ?case
    by (simp add: unat_byte_of_nat)
qed

lemma length_EncUint64 [simp]: "length (EncUint64 w) = 8"
  by (simp add: EncUint64_def)

lemma DecUint64_EncUint64: "DecUint64 (EncUint64 w) = w"
proof -
  have "unat w < 2 ^ 64"
    using unsigned_less [of w] by simp
  then have "unat w < 256 ^ 8" by simp
  then show ?thesis
    by (simp add: DecUint64_def EncUint64_def dec_le_enc_le)
qed

lemma ReadFull_append: "ReadFull (length b) (b @ r) = Inr (b, r)"
  by (simp add: ReadFull_def)

lemma decode_uint64_EncUint64: "decode_uint64 (EncUint64 w @ r) = Inr (w, r)"
  using ReadFull_append [of "EncUint64 w" r]
  by (simp add: decode_uint64_def DecUint64_EncUint64)

lemma decode_bytes_encode_bytes:
  "length b < 2 ^ 64 \<Longrightarrow> decode_bytes (encode_bytes b @ r) = Inr (b, r)"
  by (simp add: decode_bytes_def encode_bytes_def decode_uint64_EncUint64 unat_of_nat ReadFull_append)

lemma decode_SiaPublicKey_encode:
  "length (Algorithm pk) = 16 \<Longrightarrow> length (Key pk) < 2 ^ 64 \<Longrightarrow>
     decode_SiaPublicKey (encode_SiaPublicKey pk @ r) = Inr (pk, r)"
  using ReadFull_append [of "Algorithm pk" "encode_bytes (Key pk) @ r"]
  by (simp add: decode_SiaPublicKey_def encode_SiaPublicKey_def decode_bytes_encode_bytes)

lemma decode_UnlockHash_encode:
  "length (Hash uh) = HashSize \<Longrightarrow> decode_UnlockHash (encode_UnlockHash uh @ r) = Inr (uh, r)"
  using ReadFull_append [of "Hash uh" r]
  by (simp add: decode_UnlockHash_def encode_UnlockHash_def)

lemma decode_RawInputLockFormat_encode:
  "length (Condition rf) < 2 ^ 64 \<Longrightarrow> length (Fulfillment rf) < 2 ^ 64 \<Longrightarrow>
     decode_RawInputLockFormat (encode_RawInputLockFormat rf @ r) = Inr (rf, r)"
  by (simp add: decode_RawInputLockFormat_def encode_RawInputLockFormat_def decode_bytes_encode_bytes)

lemma decode_AtomicSwapCondition_encode:
  "length (Hash (c_Sender cond)) = HashSize \<Longrightarrow> length (Hash (c_Receiver cond)) = HashSize \<Longrightarrow>
   length (c_HashedSecret cond) = 32 \<Longrightarrow>
     decode_AtomicSwapCondition (encode_AtomicSwapCondition cond @ r) = Inr (cond, r)"
  using ReadFull_append [of "c_HashedSecret cond" "EncUint64 (c_Timelock cond) @ r"]
  by (simp add: decode_AtomicSwapCondition_def encode_AtomicSwapCondition_def
      decode_UnlockHash_encode decode_uint64_EncUint64)

lemma decode_AtomicSwapFulfillment_encode:
  "length (Algorithm (f_PublicKey ful)) = 16 \<Longrightarrow> length (Key (f_PublicKey ful)) < 2 ^ 64 \<Longrightarrow>
   length (f_Signature ful) < 2 ^ 64 \<Longrightarrow> length (f_Secret ful) = 32 \<Longrightarrow>
     decode_AtomicSwapFulfillment (encode_AtomicSwapFulfillment ful @ r) = Inr (ful, r)"
  using ReadFull_append [of "f_Secret ful" r]
  by (simp add: decode_AtomicSwapFulfillment_def encode_AtomicSwapFulfillment_def
      decode_SiaPublicKey_encode decode_bytes_encode_bytes)

section \<open>Decoding a proxy\<close>

lemma init_simps:
  "init UnlockTypeSingleSignature = Some new_SingleSignatureInputLock"
  "init UnlockTypeAtomicSwap = Some new_AtomicSwapInputLock"
  "ut \<noteq> UnlockTypeSingleSignature \<Longrightarrow> ut \<noteq> UnlockTypeAtomicSwap \<Longrightarrow> init ut = None"
  by (simp_all add: init_def RegisterUnlockType_def UnlockTypeSingleSignature_def UnlockTypeAtomicSwap_def)

lemma proxy_UnmarshalSia_raw:
  assumes "ut \<noteq> UnlockTypeNil"
    and "decode_RawInputLockFormat r = Inr (rf, r')"
    and "il_Decode rf (case reg ut of Some ilc \<Rightarrow> ilc | None \<Rightarrow> new_UnknownInputLock) = (err, l)"
  shows "proxy_UnmarshalSia reg p (ut # r) = (err, \<lparr>t = ut, il = Some l\<rparr>, r')"
  using assms by (simp add: proxy_UnmarshalSia_def Let_def)

lemma il_Decode_new_Unknown:
  "il_Decode rf new_UnknownInputLock
     = (None, Unknown \<lparr>u_Condition = Condition rf, u_Fulfillment = Fulfillment rf\<rparr>)"
  by (simp add: new_UnknownInputLock_def Unknown_Decode_def)

lemma il_Decode_SingleSignature:
  assumes "valid_SiaPublicKey (ss_PublicKey ss)"
  shows "il_Decode \<lparr>Condition = il_EncodeCondition (SingleSignature ss),
                    Fulfillment = il_EncodeFulfillment (SingleSignature ss)\<rparr> (SingleSignature ss0)
         = (None, SingleSignature ss)"
proof -
  have "Unmarshal decode_SiaPublicKey (encode_SiaPublicKey (ss_PublicKey ss)) = Inr (ss_PublicKey ss)"
    using assms decode_SiaPublicKey_encode [of "ss_PublicKey ss" "[]"]
    by (simp add: Unmarshal_def valid_SiaPublicKey_def)
  then show ?thesis
    by (simp add: SingleSignature_Decode_def SingleSignature_EncodeCondition_def
        SingleSignature_EncodeFulfillment_def)
qed

lemma il_Decode_AtomicSwap:
  assumes "valid_InputLock (AtomicSwap as)"
  shows "il_Decode \<lparr>Condition = il_EncodeCondition (AtomicSwap as),
                    Fulfillment = il_EncodeFulfillment (AtomicSwap as)\<rparr> (AtomicSwap as0)
         = (None, AtomicSwap as)"
proof -
  let ?c = "\<lparr>c_Sender = Sender as, c_Receiver = Receiver as,
        c_HashedSecret = HashedSecret as, c_Timelock = Timelock as\<rparr>"
  let ?f = "\<lparr>f_PublicKey = PublicKey as, f_Signature = Signature as, f_Secret = Secret as\<rparr>"
  have c: "Unmarshal decode_AtomicSwapCondition (encode_AtomicSwapCondition ?c) = Inr ?c"
    using assms decode_AtomicSwapCondition_encode [of ?c "[]"]
    by (simp add: Unmarshal_def)
  have f: "Unmarshal decode_AtomicSwapFulfillment (encode_AtomicSwapFulfillment ?f) = Inr ?f"
    using assms decode_AtomicSwapFulfillment_encode [of ?f "[]"]
    by (simp add: Unmarshal_def valid_SiaPublicKey_def)
  show ?thesis
    by (simp add: AtomicSwap_Decode_def AtomicSwap_EncodeCondition_def
        AtomicSwap_EncodeFulfillment_def c f)
qed

section \<open>Signature algorithms\<close>

lemma specifier_distinct: "SignatureEntropy \<noteq> SignatureEd25519"
  by (simp add: SignatureEntropy_def SignatureEd25519_def specifier_def)

text \<open>
  Claim C7.  Under a public key whose algorithm is the entropy specifier, signing
  returns no signature and \<open>ErrEntropyKey\<close>, and verifying returns \<open>ErrEntropyKey\<close>,
  for every key material, input index, transaction, signing key, signature and extra
  signed objects.
\<close>

theorem entropy_never_signs:
  "signHashUsingSiaPublicKey c \<lparr>Algorithm = SignatureEntropy, Key = k\<rparr> inputIndex tx sk extra
     = ([], Some ErrEntropyKey)
   \<and> verifyHashUsingSiaPublicKey c \<lparr>Algorithm = SignatureEntropy, Key = k\<rparr> inputIndex tx sig extra
     = Some ErrEntropyKey"
  by (simp add: signHashUsingSiaPublicKey_def verifyHashUsingSiaPublicKey_def)

section \<open>Unfolding lemmas and facts about the sample values\<close>

lemma length_specifier [simp]: "length (specifier s) = 16"
  by (simp add: specifier_def)

lemma sample_crypto_simps:
  "SignHash sample_crypto h sk = h @ sk"
  "VerifyHash sample_crypto h pk sig = (if sig = h @ pk then None else Some ErrInvalidSignature)"
  "length (HashBytes sample_crypto b) = 32"
  "length (Sum256 sample_crypto b) = 32"
  "length (InputSigHash sample_crypto tx i extra) = 32"
  by (simp_all add: sample_crypto_def)

lemma sample_key_simps:
  "Algorithm sample_key = SignatureEd25519" "Key sample_key = replicate 32 7"
  "Algorithm sample_sender_key = SignatureEd25519" "Key sample_sender_key = replicate 32 9"
  by (simp_all add: sample_key_def sample_sender_key_def)

lemma sample_soft_fork_key_Algorithm:
  "Algorithm sample_soft_fork_key \<noteq> SignatureEntropy"
  "Algorithm sample_soft_fork_key \<noteq> SignatureEd25519"
  by (simp_all add: sample_soft_fork_key_def SignatureEntropy_def SignatureEd25519_def specifier_def)

lemma verify_sample_signature:
  "verifyHashUsingSiaPublicKey sample_crypto \<lparr>Algorithm = SignatureEd25519, Key = replicate 32 v\<rparr> i tx
     (InputSigHash sample_crypto tx i extra @ replicate 32 v) extra = None"
  by (simp add: verifyHashUsingSiaPublicKey_def specifier_distinct [symmetric] Unmarshal_def
      ReadFull_def PublicKeySize_def SignatureSize_def sample_crypto_simps)

lemma single_signature_UnlockHash:
  "proxy_UnlockHash c \<lparr>t = UnlockTypeSingleSignature,
      il = Some (SingleSignature \<lparr>ss_PublicKey = pk, ss_Signature = []\<rparr>)\<rparr>
     = Inr (NewUnlockHash UnlockTypeSingleSignature (HashObject c (encode_SiaPublicKey pk)))"
  by (simp add: proxy_UnlockHash_def UnlockTypeSingleSignature_def UnlockTypeNil_def
      SingleSignature_EncodeCondition_def)

lemma AtomicSwap_Unlock_unfold:
  "AtomicSwap_Unlock c now inputIndex tx a =
     (if now \<le> Timelock a then
        (if NewUnlockHash UnlockTypeSingleSignature (HashObject c (encode_SiaPublicKey (PublicKey a)))
              \<noteq> Receiver a
           then Some ErrInvalidRedeemer
         else
           (case verifyHashUsingSiaPublicKey c (PublicKey a) inputIndex tx (Signature a) [Secret a] of
              Some e \<Rightarrow> Some e
            | None \<Rightarrow>
                if HashedSecret a \<noteq> Sum256 c (Secret a) then Some ErrInvalidPreImageSha256
                else None))
      else if NewUnlockHash UnlockTypeSingleSignature (HashObject c (encode_SiaPublicKey (PublicKey a)))
                \<noteq> Sender a
        then Some ErrInvalidRedeemer
      else verifyHashUsingSiaPublicKey c (PublicKey a) inputIndex tx (Signature a) [])"
proof -
  let ?U = "NewUnlockHash UnlockTypeSingleSignature (HashObject c (encode_SiaPublicKey (PublicKey a)))"
  have eq: "Type ?U \<noteq> Type x \<or> Hash ?U \<noteq> Hash x \<longleftrightarrow> ?U \<noteq> x" for x
    by (cases x) (auto simp: NewUnlockHash_def)
  have new: "NewSingleSignatureInputLock pk = Inr \<lparr>t = UnlockTypeSingleSignature,
            il = Some (SingleSignature \<lparr>ss_PublicKey = pk, ss_Signature = []\<rparr>)\<rparr>" for pk
    by (simp add: NewSingleSignatureInputLock_def NewInputLockProxy_def)
  show ?thesis
    by (simp add: AtomicSwap_Unlock_def new single_signature_UnlockHash eq Let_def
        split: option.splits)
qed

lemma sample_claimed_simps:
  "Timelock sample_claimed = 10"
  "PublicKey sample_claimed = sample_key"
  "Secret sample_claimed = sample_secret"
  "HashedSecret sample_claimed = Sum256 sample_crypto sample_secret"
  "Receiver sample_claimed = NewUnlockHash UnlockTypeSingleSignature
                 (HashObject sample_crypto (encode_SiaPublicKey sample_key))"
  "Signature sample_claimed = InputSigHash sample_crypto () 0 [sample_secret] @ replicate 32 7"
  by (simp_all add: sample_claimed_def sample_swap_def sample_crypto_simps)

lemma sample_refunded_simps:
  "Timelock sample_refunded = 10"
  "PublicKey sample_refunded = sample_sender_key"
  "Sender sample_refunded = NewUnlockHash UnlockTypeSingleSignature
                 (HashObject sample_crypto (encode_SiaPublicKey sample_sender_key))"
  "Signature sample_refunded = InputSigHash sample_crypto () 0 [] @ replicate 32 9"
  by (simp_all add: sample_refunded_def sample_swap_def sample_crypto_simps)

lemma sample_claimed_verifies:
  "verifyHashUsingSiaPublicKey sample_crypto sample_key 0 ()
     (InputSigHash sample_crypto () 0 [sample_secret] @ replicate 32 7) [sample_secret] = None"
  using verify_sample_signature [of 7 0 "()" "[sample_secret]"]
  by (simp add: sample_key_def)

lemma sample_refunded_verifies:
  "verifyHashUsingSiaPublicKey sample_crypto sample_sender_key 0 ()
     (InputSigHash sample_crypto () 0 [] @ replicate 32 9) [] = None"
  using verify_sample_signature [of 9 0 "()" "[]"]
  by (simp add: sample_sender_key_def)

lemma sample_Unlock_claimed: "AtomicSwap_Unlock sample_crypto 5 0 () sample_claimed = None"
  by (simp add: AtomicSwap_Unlock_unfold sample_claimed_simps sample_claimed_verifies)

lemma sample_Unlock_refunded: "AtomicSwap_Unlock sample_crypto 11 0 () sample_refunded = None"
  by (simp add: AtomicSwap_Unlock_unfold sample_refunded_simps sample_refunded_verifies)

lemma sample_wrong_secret:
  "Sum256 sample_crypto (Secret (sample_claimed\<lparr>HashedSecret := replicate 32 0\<rparr>))
     \<noteq> HashedSecret (sample_claimed\<lparr>HashedSecret := replicate 32 0\<rparr>)"
  by (simp add: sample_claimed_simps sample_secret_def sample_crypto_def sum_list_replicate)

lemma sample_soft_fork_swap_simps:
  "Timelock sample_soft_fork_swap = 10"
  "PublicKey sample_soft_fork_swap = sample_soft_fork_key"
  "Signature sample_soft_fork_swap = []"
  "Secret sample_soft_fork_swap = sample_secret"
  "HashedSecret sample_soft_fork_swap = replicate 32 0"
  "Receiver sample_soft_fork_swap = NewUnlockHash UnlockTypeSingleSignature
                 (HashObject sample_crypto (encode_SiaPublicKey sample_soft_fork_key))"
  by (simp_all add: sample_soft_fork_swap_def)

lemma sample_soft_fork_swap_Unlock:
  "AtomicSwap_Unlock sample_crypto 5 0 () sample_soft_fork_swap = Some ErrInvalidPreImageSha256"
  by (simp add: AtomicSwap_Unlock_unfold sample_soft_fork_swap_simps
      verifyHashUsingSiaPublicKey_def sample_soft_fork_key_Algorithm
      sample_secret_def sample_crypto_def sum_list_replicate)

text \<open>
  Claim C10, as amended.  Under a public key whose algorithm is neither the entropy nor
  the Ed25519 specifier, verification returns no error for every signature,
  transaction, input index and extra objects, and signing returns the nil signature and
  no error for every key.  So a single-signature input under such a key unlocks
  whatever its signature is.  An atomic swap fulfilled with such a key passes the
  signature check, and its \<open>Unlock\<close> is decided by the redeemer and pre-image checks
  alone: before the time lock it needs the receiver's unlock hash and the pre-image of
  the hashed secret, after it the sender's unlock hash.
\<close>

theorem unrecognized_algorithm_assumed_valid:
  assumes "Algorithm pk \<noteq> SignatureEntropy" and "Algorithm pk \<noteq> SignatureEd25519"
  shows "verifyHashUsingSiaPublicKey c pk inputIndex tx sig extra = None
       \<and> signHashUsingSiaPublicKey c pk inputIndex tx k extra = ([], None)
       \<and> proxy_Unlock c now inputIndex tx
            \<lparr>t = UnlockTypeSingleSignature,
             il = Some (SingleSignature \<lparr>ss_PublicKey = pk, ss_Signature = sig\<rparr>)\<rparr> = None
       \<and> proxy_Unlock c now inputIndex tx
            \<lparr>t = UnlockTypeAtomicSwap, il = Some (AtomicSwap (as\<lparr>PublicKey := pk\<rparr>))\<rparr>
           = (if now \<le> Timelock as then
                (if NewUnlockHash UnlockTypeSingleSignature (HashObject c (encode_SiaPublicKey pk))
                      \<noteq> Receiver as
                   then Some ErrInvalidRedeemer
                 else if HashedSecret as \<noteq> Sum256 c (Secret as) then Some ErrInvalidPreImageSha256
                 else None)
              else if NewUnlockHash UnlockTypeSingleSignature (HashObject c (encode_SiaPublicKey pk))
                        \<noteq> Sender as
                then Some ErrInvalidRedeemer
              else None)"
proof -
  have v: "verifyHashUsingSiaPublicKey c pk inputIndex tx s extra = None" for s extra
    using assms by (simp add: verifyHashUsingSiaPublicKey_def)
  have s: "signHashUsingSiaPublicKey c pk inputIndex tx k extra = ([], None)"
    using assms by (simp add: signHashUsingSiaPublicKey_def)
  have ss: "proxy_Unlock c now inputIndex tx
            \<lparr>t = UnlockTypeSingleSignature,
             il = Some (SingleSignature \<lparr>ss_PublicKey = pk, ss_Signature = sig\<rparr>)\<rparr> = None"
    by (simp add: proxy_Unlock_def SingleSignature_Unlock_def UnlockTypeSingleSignature_def
        UnlockTypeNil_def v)
  have swap: "proxy_Unlock c now inputIndex tx
            \<lparr>t = UnlockTypeAtomicSwap, il = Some (AtomicSwap (as\<lparr>PublicKey := pk\<rparr>))\<rparr>
      = AtomicSwap_Unlock c now inputIndex tx (as\<lparr>PublicKey := pk\<rparr>)"
    by (simp add: proxy_Unlock_def UnlockTypeAtomicSwap_def UnlockTypeNil_def)
  show ?thesis
    unfolding swap by (simp add: v s ss AtomicSwap_Unlock_unfold)
qed

theorem unrecognized_algorithm_assumed_valid_witness:
  "Algorithm sample_soft_fork_key \<noteq> SignatureEntropy
   \<and> Algorithm sample_soft_fork_key \<noteq> SignatureEd25519
   \<and> verifyHashUsingSiaPublicKey sample_crypto sample_soft_fork_key 0 () [9, 9] [] = None
   \<and> signHashUsingSiaPublicKey sample_crypto sample_soft_fork_key 0 () KeyOther [] = ([], None)
   \<and> proxy_Unlock sample_crypto 5 0 ()
        \<lparr>t = UnlockTypeSingleSignature,
         il = Some (SingleSignature \<lparr>ss_PublicKey = sample_soft_fork_key, ss_Signature = [9, 9]\<rparr>)\<rparr>
       = None
   \<and> proxy_Unlock sample_crypto 5 0 ()
        \<lparr>t = UnlockTypeAtomicSwap,
         il = Some (AtomicSwap (sample_soft_fork_swap
                \<lparr>HashedSecret := Sum256 sample_crypto sample_secret,
                 PublicKey := sample_soft_fork_key\<rparr>))\<rparr>
       = None"
  using sample_soft_fork_key_Algorithm
    unrecognized_algorithm_assumed_valid [OF sample_soft_fork_key_Algorithm,
      where c = sample_crypto and inputIndex = 0 and tx = "()" and sig = "[9, 9]"
        and extra = "[]" and k = KeyOther and now = 5
        and as = "sample_soft_fork_swap\<lparr>HashedSecret := Sum256 sample_crypto sample_secret\<rparr>"]
  by (simp add: sample_soft_fork_swap_simps)

text \<open>
  The claim as it was made, that an input under such a key always unlocks, fails on an
  atomic swap: the sample swap is fulfilled with a key of an unrecognised algorithm,
  the key is the receiver's and the clock has not passed the time lock, and \<open>Unlock\<close>
  still returns \<open>ErrInvalidPreImageSha256\<close>.
\<close>

theorem unrecognized_algorithm_assumed_valid_counterexample:
  "Algorithm (PublicKey sample_soft_fork_swap) \<noteq> SignatureEntropy
   \<and> Algorithm (PublicKey sample_soft_fork_swap) \<noteq> SignatureEd25519
   \<and> proxy_Unlock sample_crypto 5 0 ()
        \<lparr>t = UnlockTypeAtomicSwap, il = Some (AtomicSwap sample_soft_fork_swap)\<rparr>
       = Some ErrInvalidPreImageSha256"
  by (simp add: sample_soft_fork_swap_simps sample_soft_fork_key_Algorithm proxy_Unlock_def
      UnlockTypeAtomicSwap_def UnlockTypeNil_def sample_soft_fork_swap_Unlock)

text \<open>
  Claim C6.  The strict check fails on the unknown lock, held by a proxy of any type.
  On a single-signature or atomic-swap lock whose key is Ed25519 it fails exactly when
  the key is not 32 bytes long or the signature not 64.  Under a recognised algorithm
  (entropy or Ed25519) with a key of 32 and a signature of 64 bytes it succeeds.  Under
  any other algorithm it fails, whatever the sizes.
\<close>

theorem StrictCheck_rule:
  "proxy_StrictCheck \<lparr>t = ut, il = Some (Unknown u)\<rparr> \<noteq> None
   \<and> il_StrictCheck (Unknown u) = Some (ErrorString ''unknown input lock'')
   \<and> (Algorithm (ss_PublicKey ss) = SignatureEd25519 \<longrightarrow>
        (il_StrictCheck (SingleSignature ss) \<noteq> None
           \<longleftrightarrow> length (Key (ss_PublicKey ss)) \<noteq> 32 \<or> length (ss_Signature ss) \<noteq> 64))
   \<and> (Algorithm (PublicKey as) = SignatureEd25519 \<longrightarrow>
        (il_StrictCheck (AtomicSwap as) \<noteq> None
           \<longleftrightarrow> length (Key (PublicKey as)) \<noteq> 32 \<or> length (Signature as) \<noteq> 64))
   \<and> ((Algorithm (ss_PublicKey ss) = SignatureEntropy \<or> Algorithm (ss_PublicKey ss) = SignatureEd25519)
        \<and> length (Key (ss_PublicKey ss)) = 32 \<and> length (ss_Signature ss) = 64 \<longrightarrow>
        il_StrictCheck (SingleSignature ss) = None)
   \<and> ((Algorithm (PublicKey as) = SignatureEntropy \<or> Algorithm (PublicKey as) = SignatureEd25519)
        \<and> length (Key (PublicKey as)) = 32 \<and> length (Signature as) = 64 \<longrightarrow>
        il_StrictCheck (AtomicSwap as) = None)
   \<and> (Algorithm (ss_PublicKey ss) \<noteq> SignatureEntropy \<and> Algorithm (ss_PublicKey ss) \<noteq> SignatureEd25519
        \<longrightarrow> il_StrictCheck (SingleSignature ss) \<noteq> None)
   \<and> (Algorithm (PublicKey as) \<noteq> SignatureEntropy \<and> Algorithm (PublicKey as) \<noteq> SignatureEd25519
        \<longrightarrow> il_StrictCheck (AtomicSwap as) \<noteq> None)"
  using specifier_distinct
  by (simp add: proxy_StrictCheck_def Unknown_StrictCheck_def SingleSignature_StrictCheck_def
      AtomicSwap_StrictCheck_def strictSignatureCheck_def PublicKeySize_def SignatureSize_def)

theorem StrictCheck_rule_witness:
  "Algorithm (ss_PublicKey \<lparr>ss_PublicKey = sample_key, ss_Signature = replicate 64 1\<rparr>) = SignatureEd25519
   \<and> il_StrictCheck (SingleSignature \<lparr>ss_PublicKey = sample_key, ss_Signature = replicate 64 1\<rparr>) = None
   \<and> Algorithm (PublicKey sample_claimed) = SignatureEd25519
   \<and> il_StrictCheck (AtomicSwap sample_claimed) = None
   \<and> Algorithm (PublicKey (sample_claimed\<lparr>Signature := replicate 63 1\<rparr>)) = SignatureEd25519
   \<and> il_StrictCheck (AtomicSwap (sample_claimed\<lparr>Signature := replicate 63 1\<rparr>)) \<noteq> None"
proof -
  let ?ss = "\<lparr>ss_PublicKey = sample_key, ss_Signature = replicate 64 1\<rparr>"
  let ?short = "sample_claimed\<lparr>Signature := replicate 63 1\<rparr>"
  have a: "Algorithm (ss_PublicKey ?ss) = SignatureEd25519"
    "length (Key (ss_PublicKey ?ss)) = 32" "length (ss_Signature ?ss) = 64"
    by (simp_all add: sample_key_simps)
  have b: "Algorithm (PublicKey sample_claimed) = SignatureEd25519"
    "length (Key (PublicKey sample_claimed)) = 32" "length (Signature sample_claimed) = 64"
    by (simp_all add: sample_claimed_simps sample_key_simps sample_crypto_simps)
  have c: "Algorithm (PublicKey ?short) = SignatureEd25519" "length (Signature ?short) \<noteq> 64"
    by (simp_all add: sample_claimed_simps sample_key_simps)
  from StrictCheck_rule [where ss = ?ss and as = sample_claimed] a b
  have 1: "il_StrictCheck (SingleSignature ?ss) = None" "il_StrictCheck (AtomicSwap sample_claimed) = None"
    by blast+
  from StrictCheck_rule [where ss = ?ss and as = ?short] c
  have 2: "il_StrictCheck (AtomicSwap ?short) \<noteq> None"
    by blast
  from a(1) b(1) c(1) 1 2 show ?thesis by blast
qed

section \<open>The atomic swap\<close>

text \<open>
  Claim C1.  While the clock has not passed the time lock, \<open>Unlock\<close> of an atomic swap
  succeeds exactly when the single-signature unlock hash of the fulfilling key is the
  receiver's, the signature verifies with the secret as extra signed object, and the
  SHA-256 of the secret is the stored hashed secret; when only the last of the three
  fails, the error is \<open>ErrInvalidPreImageSha256\<close>.  Once the clock has passed the time
  lock, it succeeds exactly when the unlock hash of the fulfilling key is the sender's
  and the signature verifies with no extra object, and the secret has no influence on
  the result.
\<close>

theorem AtomicSwap_Unlock_rule:
  "(now \<le> Timelock as \<longrightarrow>
      (AtomicSwap_Unlock c now inputIndex tx as = None \<longleftrightarrow>
         proxy_UnlockHash c \<lparr>t = UnlockTypeSingleSignature,
            il = Some (SingleSignature \<lparr>ss_PublicKey = PublicKey as, ss_Signature = []\<rparr>)\<rparr>
           = Inr (Receiver as)
         \<and> verifyHashUsingSiaPublicKey c (PublicKey as) inputIndex tx (Signature as) [Secret as] = None
         \<and> Sum256 c (Secret as) = HashedSecret as)
      \<and> (proxy_UnlockHash c \<lparr>t = UnlockTypeSingleSignature,
            il = Some (SingleSignature \<lparr>ss_PublicKey = PublicKey as, ss_Signature = []\<rparr>)\<rparr>
           = Inr (Receiver as)
         \<and> verifyHashUsingSiaPublicKey c (PublicKey as) inputIndex tx (Signature as) [Secret as] = None
         \<and> Sum256 c (Secret as) \<noteq> HashedSecret as
         \<longrightarrow> AtomicSwap_Unlock c now inputIndex tx as = Some ErrInvalidPreImageSha256))
   \<and> (Timelock as < now \<longrightarrow>
      (AtomicSwap_Unlock c now inputIndex tx as = None \<longleftrightarrow>
         proxy_UnlockHash c \<lparr>t = UnlockTypeSingleSignature,
            il = Some (SingleSignature \<lparr>ss_PublicKey = PublicKey as, ss_Signature = []\<rparr>)\<rparr>
           = Inr (Sender as)
         \<and> verifyHashUsingSiaPublicKey c (PublicKey as) inputIndex tx (Signature as) [] = None)
      \<and> AtomicSwap_Unlock c now inputIndex tx (as\<lparr>Secret := s\<rparr>)
          = AtomicSwap_Unlock c now inputIndex tx as)"
proof -
  have claim: "now \<le> Timelock as \<longrightarrow>
      (AtomicSwap_Unlock c now inputIndex tx as = None \<longleftrightarrow>
         NewUnlockHash UnlockTypeSingleSignature (HashObject c (encode_SiaPublicKey (PublicKey as)))
           = Receiver as
         \<and> verifyHashUsingSiaPublicKey c (PublicKey as) inputIndex tx (Signature as) [Secret as] = None
         \<and> Sum256 c (Secret as) = HashedSecret as)"
    by (auto simp: AtomicSwap_Unlock_unfold split: option.splits)
  have preimage: "now \<le> Timelock as \<longrightarrow>
      (NewUnlockHash UnlockTypeSingleSignature (HashObject c (encode_SiaPublicKey (PublicKey as)))
           = Receiver as
         \<and> verifyHashUsingSiaPublicKey c (PublicKey as) inputIndex tx (Signature as) [Secret as] = None
         \<and> Sum256 c (Secret as) \<noteq> HashedSecret as
         \<longrightarrow> AtomicSwap_Unlock c now inputIndex tx as = Some ErrInvalidPreImageSha256)"
    by (auto simp: AtomicSwap_Unlock_unfold split: option.splits)
  have refund: "Timelock as < now \<longrightarrow>
      (AtomicSwap_Unlock c now inputIndex tx as = None \<longleftrightarrow>
         NewUnlockHash UnlockTypeSingleSignature (HashObject c (encode_SiaPublicKey (PublicKey as)))
           = Sender as
         \<and> verifyHashUsingSiaPublicKey c (PublicKey as) inputIndex tx (Signature as) [] = None)"
    by (auto simp: AtomicSwap_Unlock_unfold)
  have ignored: "Timelock as < now \<longrightarrow>
      AtomicSwap_Unlock c now inputIndex tx (as\<lparr>Secret := s\<rparr>)
          = AtomicSwap_Unlock c now inputIndex tx as"
    by (auto simp: AtomicSwap_Unlock_unfold)
  from claim preimage refund ignored show ?thesis
    by (simp add: single_signature_UnlockHash)
qed

theorem AtomicSwap_Unlock_rule_witness:
  "(5 :: Timestamp) \<le> Timelock sample_claimed
   \<and> AtomicSwap_Unlock sample_crypto 5 0 () sample_claimed = None
   \<and> Sum256 sample_crypto (Secret (sample_claimed\<lparr>HashedSecret := replicate 32 0\<rparr>))
       \<noteq> HashedSecret (sample_claimed\<lparr>HashedSecret := replicate 32 0\<rparr>)
   \<and> AtomicSwap_Unlock sample_crypto 5 0 () (sample_claimed\<lparr>HashedSecret := replicate 32 0\<rparr>)
       = Some ErrInvalidPreImageSha256
   \<and> Timelock sample_refunded < (11 :: Timestamp)
   \<and> AtomicSwap_Unlock sample_crypto 11 0 () sample_refunded = None
   \<and> AtomicSwap_Unlock sample_crypto 11 0 () (sample_refunded\<lparr>Secret := sample_secret\<rparr>) = None"
proof -
  let ?bad = "sample_claimed\<lparr>HashedSecret := replicate 32 0\<rparr>"
  have before: "(5 :: Timestamp) \<le> Timelock sample_claimed" "(5 :: Timestamp) \<le> Timelock ?bad"
    by (simp_all add: sample_claimed_simps)
  have after: "Timelock sample_refunded < (11 :: Timestamp)"
    by (simp add: sample_refunded_simps)
  have receiver: "proxy_UnlockHash sample_crypto \<lparr>t = UnlockTypeSingleSignature,
        il = Some (SingleSignature \<lparr>ss_PublicKey = PublicKey ?bad, ss_Signature = []\<rparr>)\<rparr>
      = Inr (Receiver ?bad)"
    by (simp add: single_signature_UnlockHash sample_claimed_simps)
  have verifies: "verifyHashUsingSiaPublicKey sample_crypto (PublicKey ?bad) 0 () (Signature ?bad)
        [Secret ?bad] = None"
    by (simp add: sample_claimed_simps sample_claimed_verifies)
  have sender: "proxy_UnlockHash sample_crypto \<lparr>t = UnlockTypeSingleSignature,
        il = Some (SingleSignature \<lparr>ss_PublicKey = PublicKey sample_refunded, ss_Signature = []\<rparr>)\<rparr>
      = Inr (Sender sample_refunded)"
    by (simp add: single_signature_UnlockHash sample_refunded_simps)
  have verifies': "verifyHashUsingSiaPublicKey sample_crypto (PublicKey sample_refunded) 0 ()
        (Signature sample_refunded) [] = None"
    by (simp add: sample_refunded_simps sample_refunded_verifies)
  have receiver': "proxy_UnlockHash sample_crypto \<lparr>t = UnlockTypeSingleSignature,
        il = Some (SingleSignature \<lparr>ss_PublicKey = PublicKey sample_claimed, ss_Signature = []\<rparr>)\<rparr>
      = Inr (Receiver sample_claimed)"
    by (simp add: single_signature_UnlockHash sample_claimed_simps)
  have verifies'': "verifyHashUsingSiaPublicKey sample_crypto (PublicKey sample_claimed) 0 ()
        (Signature sample_claimed) [Secret sample_claimed] = None"
    by (simp add: sample_claimed_simps sample_claimed_verifies)
  have hashed: "Sum256 sample_crypto (Secret sample_claimed) = HashedSecret sample_claimed"
    by (simp add: sample_claimed_simps)
  note r1 = AtomicSwap_Unlock_rule [where now = 5 and as = sample_claimed and c = sample_crypto
      and inputIndex = 0 and tx = "()" and s = sample_secret]
  note r2 = AtomicSwap_Unlock_rule [where now = 5 and as = ?bad and c = sample_crypto
      and inputIndex = 0 and tx = "()" and s = sample_secret]
  note r3 = AtomicSwap_Unlock_rule [where now = 11 and as = sample_refunded and c = sample_crypto
      and inputIndex = 0 and tx = "()" and s = sample_secret]
  have 1: "AtomicSwap_Unlock sample_crypto 5 0 () sample_claimed = None"
    using r1 before(1) receiver' verifies'' hashed by blast
  have 2: "AtomicSwap_Unlock sample_crypto 5 0 () ?bad = Some ErrInvalidPreImageSha256"
    using r2 before(2) receiver verifies sample_wrong_secret by blast
  have 3: "AtomicSwap_Unlock sample_crypto 11 0 () sample_refunded = None"
    "AtomicSwap_Unlock sample_crypto 11 0 () (sample_refunded\<lparr>Secret := sample_secret\<rparr>) = None"
    using r3 after sender verifies' by simp_all
  from before(1) after sample_wrong_secret 1 2 3 show ?thesis by blast
qed

text \<open>
  The receiver's claim of the sample swap is no longer accepted once the time lock has
  passed: the fulfilling key is not the sender's.
\<close>

lemma sample_claimed_expires:
  "AtomicSwap_Unlock sample_crypto 11 0 () sample_claimed = Some ErrInvalidRedeemer"
  by (simp add: AtomicSwap_Unlock_unfold sample_claimed_def sample_swap_def NewUnlockHash_def
      HashObject_def sample_crypto_def encode_SiaPublicKey_def encode_bytes_def
      sample_key_def sample_sender_key_def sum_list_replicate)

section \<open>Locking through the proxy\<close>

lemma sample_swap_simps:
  "Timelock sample_swap = 10" "Signature sample_swap = []"
  "HashedSecret sample_swap = Sum256 sample_crypto sample_secret"
  by (simp_all add: sample_swap_def)

lemma sample_AtomicSwap_Lock:
  "AtomicSwap_Lock sample_crypto 5 0 () sample_claim_key sample_swap = (None, sample_claimed)"
  by (simp add: AtomicSwap_Lock_def sample_claim_key_def sample_swap_simps Let_def
      signHashUsingSiaPublicKey_def sample_key_simps specifier_distinct [symmetric]
      sample_claimed_def)

lemma sample_proxy_Lock:
  "proxy_Lock sample_crypto 5 5 0 () sample_claim_key sample_proxy
     = (None, \<lparr>t = UnlockTypeAtomicSwap, il = Some (AtomicSwap sample_claimed)\<rparr>)"
  by (simp add: proxy_Lock_def sample_proxy_def UnlockTypeAtomicSwap_def UnlockTypeNil_def
      sample_AtomicSwap_Lock sample_Unlock_claimed)

lemma sample_proxy_not_nil: "t sample_proxy \<noteq> UnlockTypeNil"
  by (simp add: sample_proxy_def UnlockTypeAtomicSwap_def UnlockTypeNil_def)

lemma proxy_Unlock_same_side:
  assumes "same_side_of_Timelock now now' q"
  shows "proxy_Unlock c now inputIndex tx q = proxy_Unlock c now' inputIndex tx q"
proof (cases "il q")
  case None
  then show ?thesis by (simp add: proxy_Unlock_def)
next
  case (Some l)
  show ?thesis
  proof (cases l)
    case (Unknown u)
    with Some show ?thesis by (simp add: proxy_Unlock_def)
  next
    case (SingleSignature ss)
    with Some show ?thesis by (simp add: proxy_Unlock_def)
  next
    case (AtomicSwap as)
    with Some assms have "(now \<le> Timelock as) = (now' \<le> Timelock as)"
      by (simp add: same_side_of_Timelock_def)
    then have "AtomicSwap_Unlock c now inputIndex tx as = AtomicSwap_Unlock c now' inputIndex tx as"
      by (simp add: AtomicSwap_Unlock_unfold)
    with Some AtomicSwap show ?thesis by (simp add: proxy_Unlock_def)
  qed
qed

text \<open>
  Claim C9, as amended.  When \<open>Lock\<close> of a proxy that is not of the nil type returns no
  error, \<open>Unlock\<close> of the proxy as \<open>Lock\<close> left it, for the same input index and
  transaction, returns no error either, at the clock reading at which \<open>Lock\<close> verified
  its own work and at every clock reading on the same side of the time lock as that
  one; for a proxy that holds no atomic swap, at every clock reading.
\<close>

theorem Lock_then_Unlock:
  assumes "t p \<noteq> UnlockTypeNil"
    and "proxy_Lock c now_lock now_unlock inputIndex tx k p = (None, q)"
  shows "proxy_Unlock c now_unlock inputIndex tx q = None
       \<and> (same_side_of_Timelock now now_unlock q \<longrightarrow> proxy_Unlock c now inputIndex tx q = None)"
proof -
  from assms have "proxy_Unlock c now_unlock inputIndex tx q = None"
    by (auto simp: proxy_Lock_def proxy_Unlock_def nil_pointer_def
        split: option.splits prod.splits)
  then show ?thesis
    using proxy_Unlock_same_side [of now now_unlock q c inputIndex tx] by simp
qed

theorem Lock_then_Unlock_witness:
  "t sample_proxy \<noteq> UnlockTypeNil
   \<and> proxy_Lock sample_crypto 5 5 0 () sample_claim_key sample_proxy
       = (None, \<lparr>t = UnlockTypeAtomicSwap, il = Some (AtomicSwap sample_claimed)\<rparr>)
   \<and> proxy_Unlock sample_crypto 5 0 ()
        \<lparr>t = UnlockTypeAtomicSwap, il = Some (AtomicSwap sample_claimed)\<rparr> = None
   \<and> same_side_of_Timelock 7 5 \<lparr>t = UnlockTypeAtomicSwap, il = Some (AtomicSwap sample_claimed)\<rparr>
   \<and> proxy_Unlock sample_crypto 7 0 ()
        \<lparr>t = UnlockTypeAtomicSwap, il = Some (AtomicSwap sample_claimed)\<rparr> = None"
proof -
  have side: "same_side_of_Timelock 7 5
      \<lparr>t = UnlockTypeAtomicSwap, il = Some (AtomicSwap sample_claimed)\<rparr>"
    by (simp add: same_side_of_Timelock_def sample_claimed_simps)
  from Lock_then_Unlock [OF sample_proxy_not_nil sample_proxy_Lock, of 7] side
    sample_proxy_not_nil sample_proxy_Lock
  show ?thesis by simp
qed

text \<open>
  The claim as it was made, with no condition on the clock, fails on the sample swap:
  the receiver's \<open>Lock\<close> at clock reading 5 returns no error, and \<open>Unlock\<close> of the locked
  proxy, for the same input index and transaction, returns \<open>ErrInvalidRedeemer\<close> at
  clock reading 11, after the time lock.
\<close>

theorem Lock_then_Unlock_counterexample:
  "t sample_proxy \<noteq> UnlockTypeNil
   \<and> proxy_Lock sample_crypto 5 5 0 () sample_claim_key sample_proxy
       = (None, \<lparr>t = UnlockTypeAtomicSwap, il = Some (AtomicSwap sample_claimed)\<rparr>)
   \<and> proxy_Unlock sample_crypto 11 0 ()
        \<lparr>t = UnlockTypeAtomicSwap, il = Some (AtomicSwap sample_claimed)\<rparr>
       = Some ErrInvalidRedeemer"
  using sample_proxy_not_nil sample_proxy_Lock sample_claimed_expires
  by (simp add: proxy_Unlock_def UnlockTypeAtomicSwap_def UnlockTypeNil_def)

section \<open>Unknown lock types and the wire format\<close>

text \<open>
  Claim C5.  The unlock hash of a proxy of the nil type is the all-zero unlock hash (type
  byte zero, thirty-two zero bytes), whatever inner lock the proxy holds, a nil
  interface included.
\<close>

theorem nil_proxy_UnlockHash_zero:
  "proxy_UnlockHash c \<lparr>t = UnlockTypeNil, il = l\<rparr> = Inr \<lparr>Type = 0, Hash = replicate 32 0\<rparr>"
  by (simp add: proxy_UnlockHash_def ZeroUnlockHash_def HashSize_def)

lemma init_7: "init 7 = None"
  by (simp add: init_simps UnlockTypeSingleSignature_def UnlockTypeAtomicSwap_def)

lemma decode_sample_raw:
  "decode_RawInputLockFormat (encode_RawInputLockFormat sample_raw) = Inr (sample_raw, [])"
  using decode_RawInputLockFormat_encode [of sample_raw "[]"]
  by (simp add: sample_raw_def)

text \<open>
  Claim C4.  A type byte that is not nil and has no constructor in the registry is
  decoded into the unknown lock, which holds the condition and the fulfillment of the
  raw format byte for byte; \<open>Unlock\<close> of that lock returns no error for every input
  index, transaction and clock reading, and its strict check returns an error.
\<close>

theorem unknown_type_passthrough:
  assumes "reg ut = None" and "ut \<noteq> UnlockTypeNil"
    and "decode_RawInputLockFormat r = Inr (rf, r')"
  shows "proxy_UnmarshalSia reg p (ut # r)
           = (None, \<lparr>t = ut, il = Some (Unknown \<lparr>u_Condition = Condition rf,
                                                  u_Fulfillment = Fulfillment rf\<rparr>)\<rparr>, r')
       \<and> proxy_Unlock c now inputIndex tx
           \<lparr>t = ut, il = Some (Unknown \<lparr>u_Condition = Condition rf,
                                         u_Fulfillment = Fulfillment rf\<rparr>)\<rparr> = None
       \<and> proxy_StrictCheck
           \<lparr>t = ut, il = Some (Unknown \<lparr>u_Condition = Condition rf,
                                         u_Fulfillment = Fulfillment rf\<rparr>)\<rparr>
           = Some (ErrorString ''unknown input lock'')
       \<and> il_Unlock c now inputIndex tx (Unknown u) = None
       \<and> il_StrictCheck (Unknown u) = Some (ErrorString ''unknown input lock'')"
proof -
  have "il_Decode rf (case reg ut of Some ilc \<Rightarrow> ilc | None \<Rightarrow> new_UnknownInputLock)
      = (None, Unknown \<lparr>u_Condition = Condition rf, u_Fulfillment = Fulfillment rf\<rparr>)"
    using assms(1) by (simp add: il_Decode_new_Unknown)
  from proxy_UnmarshalSia_raw [where reg = reg and p = p, OF assms(2,3) this] assms(2)
  show ?thesis
    by (simp add: proxy_Unlock_def proxy_StrictCheck_def Unknown_Unlock_def Unknown_StrictCheck_def)
qed

theorem unknown_type_passthrough_witness:
  "init 7 = None \<and> (7 :: UnlockType) \<noteq> UnlockTypeNil
   \<and> decode_RawInputLockFormat (encode_RawInputLockFormat sample_raw) = Inr (sample_raw, [])
   \<and> proxy_UnmarshalSia init \<lparr>t = UnlockTypeNil, il = None\<rparr> (7 # encode_RawInputLockFormat sample_raw)
           = (None, \<lparr>t = 7, il = Some (Unknown \<lparr>u_Condition = [1, 2, 3], u_Fulfillment = [4, 5]\<rparr>)\<rparr>, [])
   \<and> proxy_Unlock sample_crypto 5 0 ()
        \<lparr>t = 7, il = Some (Unknown \<lparr>u_Condition = [1, 2, 3], u_Fulfillment = [4, 5]\<rparr>)\<rparr> = None
   \<and> proxy_StrictCheck
        \<lparr>t = 7, il = Some (Unknown \<lparr>u_Condition = [1, 2, 3], u_Fulfillment = [4, 5]\<rparr>)\<rparr>
        = Some (ErrorString ''unknown input lock'')"
proof -
  have ne: "(7 :: UnlockType) \<noteq> UnlockTypeNil"
    by (simp add: UnlockTypeNil_def)
  from unknown_type_passthrough [where reg = init and ut = 7 and p = "\<lparr>t = UnlockTypeNil, il = None\<rparr>"
        and c = sample_crypto and now = 5 and inputIndex = 0 and tx = "()"
        and u = "\<lparr>u_Condition = [], u_Fulfillment = []\<rparr>", OF init_7 ne decode_sample_raw]
    init_7 ne decode_sample_raw
  show ?thesis
    by (simp add: sample_raw_def)
qed

lemma length_encode_SiaPublicKey:
  "length (encode_SiaPublicKey pk) = length (Algorithm pk) + 8 + length (Key pk)"
  by (simp add: encode_SiaPublicKey_def encode_bytes_def)

lemma decode_sample_key_raw:
  "decode_RawInputLockFormat (encode_RawInputLockFormat sample_key_raw) = Inr (sample_key_raw, [])"
  using decode_RawInputLockFormat_encode [of sample_key_raw "[]"]
  by (simp add: sample_key_raw_def length_encode_SiaPublicKey sample_key_simps SignatureEd25519_def)

lemma il_Decode_sample_key_raw:
  "il_Decode sample_key_raw new_SingleSignatureInputLock
     = (None, SingleSignature \<lparr>ss_PublicKey = sample_key, ss_Signature = []\<rparr>)"
  using il_Decode_SingleSignature [of "\<lparr>ss_PublicKey = sample_key, ss_Signature = []\<rparr>"]
  by (simp add: sample_key_raw_def new_SingleSignatureInputLock_def valid_SiaPublicKey_def
      sample_key_simps SignatureEd25519_def SingleSignature_EncodeCondition_def
      SingleSignature_EncodeFulfillment_def)

text \<open>
  Claim C2.  Let a type byte have no constructor in the registry, and let a stream hold
  that byte and a raw condition and fulfillment.  Decoded as it is, the stream gives a
  proxy of the unknown lock; decoded after the type has been registered with a
  constructor whose lock decodes the raw format and encodes the same condition bytes, it
  gives a proxy of that lock.  The two proxies have the same unlock hash: the type byte
  with the object hash of the raw condition bytes, which is what \<open>UnlockHash\<close> computes
  from the result of \<open>EncodeCondition\<close> for a lock of any kind.
\<close>

theorem UnlockHash_stable_across_registration:
  assumes "reg ut = None" and "ut \<noteq> UnlockTypeNil"
    and "decode_RawInputLockFormat r = Inr (rf, r')"
    and "il_Decode rf ilc = (None, l)"
    and "il_EncodeCondition l = Condition rf"
  shows "\<exists>q_old q_new.
           proxy_UnmarshalSia reg p (ut # r) = (None, q_old, r')
         \<and> il q_old = Some (Unknown \<lparr>u_Condition = Condition rf, u_Fulfillment = Fulfillment rf\<rparr>)
         \<and> proxy_UnmarshalSia (RegisterUnlockType ut ilc reg) p (ut # r) = (None, q_new, r')
         \<and> il q_new = Some l
         \<and> proxy_UnlockHash c q_old = proxy_UnlockHash c q_new
         \<and> proxy_UnlockHash c q_old = Inr (NewUnlockHash ut (HashObject c (Condition rf)))"
proof -
  let ?u = "Unknown \<lparr>u_Condition = Condition rf, u_Fulfillment = Fulfillment rf\<rparr>"
  have "il_Decode rf (case reg ut of Some ilc \<Rightarrow> ilc | None \<Rightarrow> new_UnknownInputLock) = (None, ?u)"
    using assms(1) by (simp add: il_Decode_new_Unknown)
  from proxy_UnmarshalSia_raw [where reg = reg and p = p, OF assms(2,3) this]
  have old: "proxy_UnmarshalSia reg p (ut # r) = (None, \<lparr>t = ut, il = Some ?u\<rparr>, r')" .
  have "il_Decode rf (case RegisterUnlockType ut ilc reg ut of Some ilc \<Rightarrow> ilc
                      | None \<Rightarrow> new_UnknownInputLock) = (None, l)"
    using assms(4) by (simp add: RegisterUnlockType_def)
  from proxy_UnmarshalSia_raw [where reg = "RegisterUnlockType ut ilc reg" and p = p,
      OF assms(2,3) this]
  have new: "proxy_UnmarshalSia (RegisterUnlockType ut ilc reg) p (ut # r)
      = (None, \<lparr>t = ut, il = Some l\<rparr>, r')" .
  have h_old: "proxy_UnlockHash c \<lparr>t = ut, il = Some ?u\<rparr>
      = Inr (NewUnlockHash ut (HashObject c (Condition rf)))"
    using assms(2) by (simp add: proxy_UnlockHash_def Unknown_EncodeCondition_def)
  have h_new: "proxy_UnlockHash c \<lparr>t = ut, il = Some l\<rparr>
      = Inr (NewUnlockHash ut (HashObject c (Condition rf)))"
    using assms(2,5) by (simp add: proxy_UnlockHash_def)
  from old new h_old h_new show ?thesis by simp
qed

theorem UnlockHash_stable_across_registration_witness:
  "init 7 = None \<and> (7 :: UnlockType) \<noteq> UnlockTypeNil
   \<and> decode_RawInputLockFormat (encode_RawInputLockFormat sample_key_raw) = Inr (sample_key_raw, [])
   \<and> il_Decode sample_key_raw new_SingleSignatureInputLock
       = (None, SingleSignature \<lparr>ss_PublicKey = sample_key, ss_Signature = []\<rparr>)
   \<and> il_EncodeCondition (SingleSignature \<lparr>ss_PublicKey = sample_key, ss_Signature = []\<rparr>)
       = Condition sample_key_raw
   \<and> (\<exists>q_old q_new.
         proxy_UnmarshalSia init \<lparr>t = UnlockTypeNil, il = None\<rparr>
             (7 # encode_RawInputLockFormat sample_key_raw) = (None, q_old, [])
       \<and> proxy_UnmarshalSia (RegisterUnlockType 7 new_SingleSignatureInputLock init)
             \<lparr>t = UnlockTypeNil, il = None\<rparr>
             (7 # encode_RawInputLockFormat sample_key_raw) = (None, q_new, [])
       \<and> il q_old \<noteq> il q_new
       \<and> proxy_UnlockHash sample_crypto q_old = proxy_UnlockHash sample_crypto q_new)"
proof -
  let ?l = "SingleSignature \<lparr>ss_PublicKey = sample_key, ss_Signature = []\<rparr>"
  have ne: "(7 :: UnlockType) \<noteq> UnlockTypeNil"
    by (simp add: UnlockTypeNil_def)
  have enc: "il_EncodeCondition ?l = Condition sample_key_raw"
    by (simp add: SingleSignature_EncodeCondition_def sample_key_raw_def)
  from UnlockHash_stable_across_registration [where reg = init and ut = 7
      and p = "\<lparr>t = UnlockTypeNil, il = None\<rparr>" and c = sample_crypto,
      OF init_7 ne decode_sample_key_raw il_Decode_sample_key_raw enc]
  obtain q_old q_new where
    "proxy_UnmarshalSia init \<lparr>t = UnlockTypeNil, il = None\<rparr>
       (7 # encode_RawInputLockFormat sample_key_raw) = (None, q_old, [])"
    "il q_old = Some (Unknown \<lparr>u_Condition = Condition sample_key_raw,
                               u_Fulfillment = Fulfillment sample_key_raw\<rparr>)"
    "proxy_UnmarshalSia (RegisterUnlockType 7 new_SingleSignatureInputLock init)
       \<lparr>t = UnlockTypeNil, il = None\<rparr>
       (7 # encode_RawInputLockFormat sample_key_raw) = (None, q_new, [])"
    "il q_new = Some ?l"
    "proxy_UnlockHash sample_crypto q_old = proxy_UnlockHash sample_crypto q_new"
    by blast
  moreover from this have "il q_old \<noteq> il q_new" by simp
  ultimately show ?thesis
    using init_7 ne decode_sample_key_raw il_Decode_sample_key_raw enc by blast
qed

lemma valid_sample_claimed:
  "valid_proxy \<lparr>t = UnlockTypeAtomicSwap, il = Some (AtomicSwap sample_claimed)\<rparr>"
  by (simp add: valid_proxy_def UnlockTypeAtomicSwap_def UnlockTypeNil_def
      sample_claimed_def sample_swap_def valid_SiaPublicKey_def sample_key_def
      SignatureEd25519_def NewUnlockHash_def HashObject_def HashSize_def sample_secret_def
      sample_crypto_simps AtomicSwap_EncodeCondition_def AtomicSwap_EncodeFulfillment_def
      encode_AtomicSwapCondition_def encode_AtomicSwapFulfillment_def encode_UnlockHash_def
      length_encode_SiaPublicKey encode_bytes_def)

text \<open>
  Claim C3.  The encoding of a well-formed proxy (of the nil type, of one of the two
  registered types with its lock, or of any other type with the unknown lock and any
  bytes) decodes, under the registry of \<open>init\<close> and from any stream that starts with it,
  without error and to the end of the encoding; the decoded proxy encodes to the same
  bytes, and unless the type is nil it is the proxy that was encoded.
\<close>

theorem proxy_roundtrip:
  assumes "valid_proxy p"
  shows "\<exists>bs q. proxy_MarshalSia p = Inr bs
           \<and> proxy_UnmarshalSia init p0 (bs @ rest) = (None, q, rest)
           \<and> proxy_MarshalSia q = Inr bs
           \<and> (t p \<noteq> UnlockTypeNil \<longrightarrow> q = p)"
proof (cases "t p = UnlockTypeNil")
  case True
  then show ?thesis
    by (simp add: proxy_MarshalSia_def proxy_UnmarshalSia_def)
next
  case False
  with assms obtain l where l: "il p = Some l" "lock_of_type (t p) l" "valid_InputLock l"
      "length (il_EncodeCondition l) < 2 ^ 64" "length (il_EncodeFulfillment l) < 2 ^ 64"
    by (auto simp: valid_proxy_def split: option.splits)
  let ?rf = "\<lparr>Condition = il_EncodeCondition l, Fulfillment = il_EncodeFulfillment l\<rparr>"
  have p: "p = \<lparr>t = t p, il = Some l\<rparr>"
    using l(1) by (cases p) simp
  have m: "proxy_MarshalSia p = Inr (t p # encode_RawInputLockFormat ?rf)"
    using False l(1) by (simp add: proxy_MarshalSia_def)
  have raw: "decode_RawInputLockFormat (encode_RawInputLockFormat ?rf @ rest) = Inr (?rf, rest)"
    using l(4,5) by (simp add: decode_RawInputLockFormat_encode)
  have dec: "il_Decode ?rf (case init (t p) of Some ilc \<Rightarrow> ilc | None \<Rightarrow> new_UnknownInputLock)
      = (None, l)"
  proof (cases l)
    case (Unknown u)
    with l(2) have "init (t p) = None" by (simp add: init_simps)
    then show ?thesis
      using Unknown
      by (simp add: il_Decode_new_Unknown Unknown_EncodeCondition_def Unknown_EncodeFulfillment_def)
  next
    case (SingleSignature ss)
    with l(2) have "init (t p) = Some new_SingleSignatureInputLock" by (simp add: init_simps)
    then show ?thesis
      using SingleSignature l(3) il_Decode_SingleSignature [of ss]
      by (simp add: new_SingleSignatureInputLock_def)
  next
    case (AtomicSwap as)
    with l(2) have "init (t p) = Some new_AtomicSwapInputLock" by (simp add: init_simps)
    then show ?thesis
      using AtomicSwap l(3) il_Decode_AtomicSwap [of as]
      by (simp add: new_AtomicSwapInputLock_def)
  qed
  have u: "proxy_UnmarshalSia init p0 ((t p # encode_RawInputLockFormat ?rf) @ rest)
      = (None, p, rest)"
    using proxy_UnmarshalSia_raw [where reg = init and p = p0, OF False raw dec] p by simp
  from m u show ?thesis by auto
qed

theorem proxy_roundtrip_witness:
  "valid_proxy \<lparr>t = UnlockTypeAtomicSwap, il = Some (AtomicSwap sample_claimed)\<rparr>
   \<and> (\<exists>bs. proxy_MarshalSia \<lparr>t = UnlockTypeAtomicSwap, il = Some (AtomicSwap sample_claimed)\<rparr> = Inr bs
        \<and> proxy_UnmarshalSia init \<lparr>t = UnlockTypeNil, il = None\<rparr> (bs @ [])
            = (None, \<lparr>t = UnlockTypeAtomicSwap, il = Some (AtomicSwap sample_claimed)\<rparr>, []))"
proof -
  have ne: "t \<lparr>t = UnlockTypeAtomicSwap, il = Some (AtomicSwap sample_claimed)\<rparr> \<noteq> UnlockTypeNil"
    by (simp add: UnlockTypeAtomicSwap_def UnlockTypeNil_def)
  from proxy_roundtrip [OF valid_sample_claimed, of "\<lparr>t = UnlockTypeNil, il = None\<rparr>" "[]"] ne
  have "\<exists>bs. proxy_MarshalSia \<lparr>t = UnlockTypeAtomicSwap, il = Some (AtomicSwap sample_claimed)\<rparr> = Inr bs
        \<and> proxy_UnmarshalSia init \<lparr>t = UnlockTypeNil, il = None\<rparr> (bs @ [])
            = (None, \<lparr>t = UnlockTypeAtomicSwap, il = Some (AtomicSwap sample_claimed)\<rparr>, [])"
    by blast
  with valid_sample_claimed show ?thesis by blast
qed

section \<open>The genesis state\<close>

text \<open>
  Claim C8.  For every genesis timestamp, and whatever the chain's identifiers and
  constants are, the current block of the state \<open>CreateGenesisState\<close> returns is the
  genesis block, the current path holds that block at height 0 and nothing else, the
  unspent coin outputs hold under the genesis block's miner payout 0 an output of the
  coinbase of height 0, and the consensus variables are the ones written out here, a
  function of the timestamp and the chain alone.
\<close>

theorem genesis_state:
  "currentBlockID (CreateGenesisState ch genesisTime) = Block_ID ch \<lparr>Timestamp = genesisTime\<rparr>
   \<and> currentPath (CreateGenesisState ch genesisTime)
       = [0 \<mapsto> Block_ID ch \<lparr>Timestamp = genesisTime\<rparr>]
   \<and> map_option sco_Value
        (unspentSiacoinOutputs (CreateGenesisState ch genesisTime)
           (Block_MinerPayoutID ch \<lparr>Timestamp = genesisTime\<rparr> 0))
       = Some (CalculateCoinbase ch 0)
   \<and> consensus_variables (CreateGenesisState ch genesisTime)
       = (0,
          [Block_MinerPayoutID ch \<lparr>Timestamp = genesisTime\<rparr> 0 \<mapsto>
             \<lparr>sco_Value = CalculateCoinbase ch 0, sco_SpendHash = replicate 32 0\<rparr>],
          Map.empty,
          [replicate 32 0 \<mapsto>
             \<lparr>sfo_Value = unat (SiafundCount ch), sfo_SpendHash = replicate 32 0,
              sfo_ClaimDestination = replicate 32 0\<rparr>],
          Map.empty)"
  by (simp add: CreateGenesisState_def consensus_variables_def Let_def ZeroAddress_def
      NewCurrency64_def)

end
